theory Spec2Isabelle
  imports Main "HOL-Library.Word" "HOL-Library.Sublist" "HOL-Library.AList"
begin

unbundle bit_operations_syntax

section \<open>Errors\<close>

text \<open>
  Every exception the sources throw is a value of \<open>error\<close>.  \<open>GitException\<close> is the
  wrapper's exception for a failed backend call (the class the \<open>catch (GitException&)\<close>
  handlers of metro.cpp name); \<open>OutOfRange\<close> is \<open>std::out_of_range\<close>, thrown by
  \<open>std::string::substr\<close> for a start position beyond the end of the string.
  \<open>UnsupportedOperation\<close> carries the message text the source passes to it.
\<close>

datatype error =
    GitException
  | RevisionNotFound
  | BranchNotFound
  | RepositoryExists
  | CurrentlyMerging
  | NotMerging
  | UnnecessaryMerge
  | UnsupportedOperation string
  | OutOfRange

section \<open>String helpers (helper.cpp)\<close>

text \<open>
  \<open>size_t\<close> is a 64-bit unsigned integer; \<open>std::string::npos\<close> is its largest value,
  which is also what the \<open>int\<close> constant \<open>-1\<close> becomes when it is compared with a
  \<open>size_t\<close>.
\<close>

type_synonym size_t = "64 word"

definition npos :: size_t where
  "npos = - 1"

definition newline :: char where
  "newline = CHR 0x0A"

text \<open>The position of the first occurrence of a character, if there is one.\<close>

fun find_first :: "char \<Rightarrow> string \<Rightarrow> nat option" where
  "find_first c [] = None"
| "find_first c (x # xs) = (if x = c then Some 0 else map_option Suc (find_first c xs))"

text \<open>\<open>std::string::find(char)\<close>: the position as a \<open>size_t\<close>, \<open>npos\<close> when absent.\<close>

definition str_find :: "string \<Rightarrow> char \<Rightarrow> size_t" where
  "str_find str c = (case find_first c str of None \<Rightarrow> npos | Some i \<Rightarrow> of_nat i)"

text \<open>
  \<open>std::string::substr(pos, count)\<close>: throws \<open>std::out_of_range\<close> when \<open>pos\<close> is
  larger than the size, and otherwise returns at most \<open>count\<close> characters from \<open>pos\<close> on.
\<close>

definition substr :: "string \<Rightarrow> size_t \<Rightarrow> size_t \<Rightarrow> error + string" where
  "substr str pos count =
     (if length str < unat pos then Inl OutOfRange
      else Inr (take (unat count) (drop (unat pos) str)))"

text \<open>
  \<open>std::string::compare(pos, len, other)\<close>, as far as its callers look at it: the result
  is \<open>0\<close> exactly when the \<open>len\<close> characters from \<open>pos\<close> on are \<open>other\<close>.  The sign of a
  non-zero result is that of the first differing character, or of the lengths.
\<close>

fun compare_chars :: "string \<Rightarrow> string \<Rightarrow> int" where
  "compare_chars [] [] = 0"
| "compare_chars [] (y # ys) = - 1"
| "compare_chars (x # xs) [] = 1"
| "compare_chars (x # xs) (y # ys) =
     (if (of_char x :: nat) < of_char y then - 1
      else if (of_char y :: nat) < of_char x then 1
      else compare_chars xs ys)"

definition str_compare :: "string \<Rightarrow> nat \<Rightarrow> nat \<Rightarrow> string \<Rightarrow> int" where
  "str_compare str pos len other = compare_chars (take len (drop pos str)) other"

definition has_prefix :: "string \<Rightarrow> string \<Rightarrow> bool" where
  "has_prefix str pre =
     (if length pre \<le> length str then str_compare str 0 (length pre) pre = 0
      else False)"

definition has_suffix :: "string \<Rightarrow> string \<Rightarrow> bool" where
  "has_suffix str suff =
     (if length suff \<le> length str
      then str_compare str (length str - length suff) (length suff) suff = 0
      else False)"

text \<open>
  \<open>split_at_first\<close> writes its two results through reference parameters; the model
  returns them as a pair \<open>(before, after)\<close>.  The test \<open>index == -1\<close> compares a \<open>size_t\<close>
  with \<open>-1\<close> converted to \<open>size_t\<close>.
\<close>

definition split_at_first :: "string \<Rightarrow> char \<Rightarrow> error + (string \<times> string)" where
  "split_at_first str c =
     (let index = str_find str c in
      if index = - 1 then Inr (str, [])
      else (case substr str 0 index of
              Inl e \<Rightarrow> Inl e
            | Inr before \<Rightarrow>
                (case substr str (index + 1) npos of
                   Inl e \<Rightarrow> Inl e
                 | Inr after \<Rightarrow> Inr (before, after))))"

section \<open>The repository and its backend\<close>

text \<open>
  Modelled from the spec: the data model of section 3.  The store's own types are not part
  of the sources.  A commit has parents, a message and a tree; object ids are the
  strings \<open>id().str()\<close> returns; a tree, the index entries and the working directory are
  lists of paths with their contents; a conflict is the ancestor/ours/theirs triple; a
  branch is a named pointer to a commit; the head is attached to a branch or detached at
  a commit; the merge state is the merge head marker \<open>MERGE_HEAD\<close> and the message file
  \<open>MERGE_MSG\<close>, each present or absent.
\<close>

type_synonym oid = string
type_synonym path = string
type_synonym files = "(path \<times> string) list"

record git_commit =
  parents :: "oid list"
  message :: string
  tree :: files

type_synonym commit_obj = "oid \<times> git_commit"

record conflict =
  ancestor :: "(path \<times> string) option"
  ours :: "(path \<times> string) option"
  theirs :: "(path \<times> string) option"

record git_index =
  entries :: files
  conflicts :: "conflict list"

datatype head_ref = Attached string | Detached oid

record repo =
  commits :: "oid \<rightharpoonup> git_commit"
  branches :: "(string \<times> oid) list"
  head :: head_ref
  index :: git_index
  workdir :: files
  merge_head :: "oid option"
  merge_msg :: "string option"

datatype reset_type = RESET_SOFT | RESET_HARD

text \<open>
  What the sources use of the store but neither define nor determine is a parameter of
  the model: the id the store gives a new commit, the number of entries of the status
  list, staging with the ignore rules, writing the index as a tree, forced checkout of a
  tree, merge analysis and merge execution, and the flag values of
  \<open>git_merge_analysis_t\<close> that \<open>start_merge\<close> tests.  A backend call that can fail
  returns \<open>None\<close>, which the wrapper throws as a \<open>GitException\<close>.
\<close>

record backend =
  be_hash :: "git_commit \<Rightarrow> oid"
  be_status :: "repo \<Rightarrow> nat"
  be_add_all :: "files \<Rightarrow> git_index \<Rightarrow> git_index"
  be_write_tree :: "git_index \<Rightarrow> files option"
  be_checkout_tree :: "files \<Rightarrow> git_index \<times> files \<Rightarrow> git_index \<times> files"
  be_merge_analysis :: "repo \<Rightarrow> oid \<Rightarrow> 32 word"
  be_merge :: "repo \<Rightarrow> oid \<Rightarrow> (git_index \<times> files) option"
  GIT_MERGE_ANALYSIS_NONE :: "32 word"
  GIT_MERGE_ANALYSIS_NORMAL :: "32 word"
  GIT_MERGE_ANALYSIS_UP_TO_DATE :: "32 word"

text \<open>
  Modelled from the spec: the reserved suffix of a WIP branch name.  The constant
  \<open>WIPString\<close> is declared outside the sources; the spec's scenarios name the WIP branch
  of \<open>main\<close> as \<open>main#wip\<close>.
\<close>

definition WIPString :: string where
  "WIPString = ''#wip''"

subsection \<open>Operations with a state and exceptions\<close>

text \<open>
  An operation on the repository takes the state and returns the value or the exception
  together with the state it leaves, so that what a failed operation has already changed
  is part of its result.
\<close>

type_synonym 'a action = "repo \<Rightarrow> (error + 'a) \<times> repo"

definition returnM :: "'a \<Rightarrow> 'a action" where
  "returnM x st = (Inr x, st)"

definition throwM :: "error \<Rightarrow> 'a action" where
  "throwM e st = (Inl e, st)"

definition bindM :: "'a action \<Rightarrow> ('a \<Rightarrow> 'b action) \<Rightarrow> 'b action" where
  "bindM m f st = (case m st of (Inl e, st') \<Rightarrow> (Inl e, st') | (Inr x, st') \<Rightarrow> f x st')"

definition thenM :: "'a action \<Rightarrow> 'b action \<Rightarrow> 'b action" where
  "thenM m k = bindM m (\<lambda>_. k)"

text \<open>\<open>try { m } catch (GitException&) { }\<close>: only a \<open>GitException\<close> is swallowed.\<close>

definition catch_git :: "unit action \<Rightarrow> unit action" where
  "catch_git m st =
     (case m st of (Inl GitException, st') \<Rightarrow> (Inr (), st') | r \<Rightarrow> r)"

subsection \<open>Store primitives\<close>

text \<open>
  The wrapper classes \<open>Repository\<close>, \<open>Index\<close>, \<open>Branch\<close> and \<open>Commit\<close> are not part of
  the sources; what the operations call on them is modelled from sections 3, 4 and 6 of
  the spec.
\<close>

text \<open>
  Modelled from the spec: the head is a branch reference or a raw commit; the commit it
  points at, if any.
\<close>

definition head_target :: "repo \<Rightarrow> oid option" where
  "head_target st =
     (case head st of Attached b \<Rightarrow> map_of (branches st) b | Detached c \<Rightarrow> Some c)"

text \<open>
  Modelled from the spec: moving the current head to a commit moves the branch the head
  is attached to, or the detached head itself.
\<close>

definition set_head_target :: "oid \<Rightarrow> repo \<Rightarrow> repo" where
  "set_head_target c st =
     (case head st of
        Attached b \<Rightarrow> st\<lparr>branches := AList.update b c (branches st)\<rparr>
      | Detached _ \<Rightarrow> st\<lparr>head := Detached c\<rparr>)"

text \<open>
  Modelled from the spec: revision resolution, a string to a commit, failing with
  \<open>RevisionNotFound\<close> if it does not resolve.  \<open>HEAD\<close> is the commit the head points at,
  \<open>MERGE_HEAD\<close> the merge head marker, any other string an object id or else the name of
  a local branch.
\<close>

definition revparse_single :: "repo \<Rightarrow> string \<Rightarrow> error + commit_obj" where
  "revparse_single st spec =
     (let target =
            (if spec = ''HEAD'' then head_target st
             else if spec = ''MERGE_HEAD'' then merge_head st
             else if commits st spec \<noteq> None then Some spec
             else map_of (branches st) spec)
      in case target of
           None \<Rightarrow> Inl RevisionNotFound
         | Some c \<Rightarrow>
             (case commits st c of
                None \<Rightarrow> Inl RevisionNotFound
              | Some obj \<Rightarrow> Inr (c, obj)))"

text \<open>
  Modelled from the spec: a commit has zero or more parent commits; \<open>parentcount\<close>,
  \<open>parent(n)\<close> and \<open>parents()\<close> of the wrapper's \<open>Commit\<close>.  Loading a parent that is not
  in the store fails.
\<close>

definition parentcount :: "commit_obj \<Rightarrow> nat" where
  "parentcount c = length (parents (snd c))"

definition lookup_commit :: "repo \<Rightarrow> oid \<Rightarrow> error + commit_obj" where
  "lookup_commit st c =
     (case commits st c of None \<Rightarrow> Inl GitException | Some obj \<Rightarrow> Inr (c, obj))"

definition commit_parent :: "commit_obj \<Rightarrow> nat \<Rightarrow> commit_obj action" where
  "commit_parent c n st =
     (if n < parentcount c then (lookup_commit st (parents (snd c) ! n), st)
      else (Inl GitException, st))"

fun lookup_all :: "repo \<Rightarrow> oid list \<Rightarrow> error + commit_obj list" where
  "lookup_all st [] = Inr []"
| "lookup_all st (c # cs) =
     (case lookup_commit st c of
        Inl e \<Rightarrow> Inl e
      | Inr obj \<Rightarrow>
          (case lookup_all st cs of Inl e \<Rightarrow> Inl e | Inr objs \<Rightarrow> Inr (obj # objs)))"

definition commit_parents :: "commit_obj \<Rightarrow> commit_obj list action" where
  "commit_parents c st = (lookup_all st (parents (snd c)), st)"

text \<open>
  Modelled from the spec: commit creation from parents, tree and message, moving the
  current head to the new commit.  The callers pass \<open>"HEAD"\<close> as the reference to update;
  no other reference is modelled.  Signatures and the message encoding are left out.
\<close>

definition create_commit ::
  "backend \<Rightarrow> string \<Rightarrow> string \<Rightarrow> files \<Rightarrow> commit_obj list \<Rightarrow> oid action" where
  "create_commit be update_ref msg t parentCommits st =
     (if update_ref = ''HEAD'' then
        (let c = \<lparr>parents = map fst parentCommits, message = msg, tree = t\<rparr>;
             new = be_hash be c
         in (Inr new, set_head_target new (st\<lparr>commits := (commits st)(new \<mapsto> c)\<rparr>)))
      else (Inl GitException, st))"

text \<open>
  Modelled from the spec: a reset moves the branch pointer to the commit; a hard reset
  also force-overwrites working directory and index to match its tree, a soft reset leaves
  them untouched.
\<close>

definition reset_to_commit :: "backend \<Rightarrow> commit_obj \<Rightarrow> reset_type \<Rightarrow> unit action" where
  "reset_to_commit be c resetType st =
     (case resetType of
        RESET_SOFT \<Rightarrow> (Inr (), set_head_target (fst c) st)
      | RESET_HARD \<Rightarrow>
          (let (idx, wd) = be_checkout_tree be (tree (snd c)) (index st, workdir st)
           in (Inr (), (set_head_target (fst c) st)\<lparr>index := idx, workdir := wd\<rparr>)))"

text \<open>
  Modelled from the spec: branch lookup, creation and deletion, and whether a branch is
  at the head.  Looking up a branch that does not exist fails with the wrapper's
  \<open>GitException\<close>, as does creating, without force, one that exists.
\<close>

definition lookup_branch :: "string \<Rightarrow> string action" where
  "lookup_branch name st =
     (case map_of (branches st) name of
        None \<Rightarrow> (Inl GitException, st)
      | Some _ \<Rightarrow> (Inr name, st))"

definition repo_create_branch :: "string \<Rightarrow> commit_obj \<Rightarrow> bool \<Rightarrow> unit action" where
  "repo_create_branch name c force st =
     (if map_of (branches st) name \<noteq> None \<and> \<not> force then (Inl GitException, st)
      else (Inr (), st\<lparr>branches := AList.update name (fst c) (branches st)\<rparr>))"

definition branch_delete :: "string \<Rightarrow> unit action" where
  "branch_delete b st = (Inr (), st\<lparr>branches := AList.delete b (branches st)\<rparr>)"

definition is_head :: "repo \<Rightarrow> string \<Rightarrow> bool" where
  "is_head st b = (head st = Attached b)"

text \<open>
  Modelled from the spec: head movement is an update of the symbolic reference, a pure
  move that touches neither index nor working directory; \<open>set_head\<close> is given the
  reference name of a branch.
\<close>

definition set_head :: "string \<Rightarrow> unit action" where
  "set_head b st = (Inr (), st\<lparr>head := Attached b\<rparr>)"

text \<open>
  Modelled from the spec: the forced checkout of a tree into the working directory; what
  it leaves in index and working directory is the backend's.
\<close>

definition checkout_tree :: "backend \<Rightarrow> files \<Rightarrow> unit action" where
  "checkout_tree be t st =
     (let (idx, wd) = be_checkout_tree be t (index st, workdir st)
      in (Inr (), st\<lparr>index := idx, workdir := wd\<rparr>))"

text \<open>
  Modelled from the spec: clearing the merge state removes the merge head marker and the
  message.
\<close>

definition cleanup_state :: "unit action" where
  "cleanup_state st = (Inr (), st\<lparr>merge_head := None, merge_msg := None\<rparr>)"

text \<open>
  Modelled from the spec: the conflict entries of the index can be tested for, removed
  and re-inserted, independent of the merge state.
\<close>

definition has_conflicts :: "git_index \<Rightarrow> bool" where
  "has_conflicts idx = (conflicts idx \<noteq> [])"

definition cleanup_conflicts :: "git_index \<Rightarrow> git_index" where
  "cleanup_conflicts idx = idx\<lparr>conflicts := []\<rparr>"

definition add_conflict :: "git_index \<Rightarrow> conflict \<Rightarrow> git_index" where
  "add_conflict idx c = idx\<lparr>conflicts := conflicts idx @ [c]\<rparr>"

text \<open>
  Modelled from the spec: merge execution populates index and working directory,
  possibly with conflicts, and leaves the repository merging, with the merged commit as
  the merge head.
\<close>

definition repo_merge :: "backend \<Rightarrow> oid \<Rightarrow> unit action" where
  "repo_merge be c st =
     (case be_merge be st c of
        None \<Rightarrow> (Inl GitException, st)
      | Some (idx, wd) \<Rightarrow> (Inr (), st\<lparr>index := idx, workdir := wd, merge_head := Some c\<rparr>))"

section \<open>metro.cpp\<close>

text \<open>\<open>merge_ongoing\<close> catches every exception of the lookup of \<open>MERGE_HEAD\<close>.\<close>

definition merge_ongoing :: "repo \<Rightarrow> bool" where
  "merge_ongoing st =
     (case revparse_single st ''MERGE_HEAD'' of Inl _ \<Rightarrow> False | Inr _ \<Rightarrow> True)"

definition assert_merging :: "unit action" where
  "assert_merging st =
     (if merge_ongoing st then throwM CurrentlyMerging st else returnM () st)"

text \<open>
  \<open>commit\<close> with the parent commits: stage everything, write the index as a tree, then
  create the commit at \<open>HEAD\<close>.  The session has one index; \<open>index.write()\<close> persists it
  and changes nothing in the model.  A failed tree write leaves the staged index behind.
\<close>

definition commit :: "backend \<Rightarrow> string \<Rightarrow> commit_obj list \<Rightarrow> unit action" where
  "commit be msg parentCommits st =
     (let idx = be_add_all be (workdir st) (index st);
          st1 = st\<lparr>index := idx\<rparr>
      in case be_write_tree be idx of
           None \<Rightarrow> (Inl GitException, st1)
         | Some t \<Rightarrow>
             bindM (create_commit be ''HEAD'' msg t parentCommits) (\<lambda>_. returnM ()) st1)"

text \<open>The loop of the second overload: resolve each parent revision in order.\<close>

fun resolve_revs :: "repo \<Rightarrow> string list \<Rightarrow> error + commit_obj list" where
  "resolve_revs st [] = Inr []"
| "resolve_revs st (r # rs) =
     (case revparse_single st r of
        Inl e \<Rightarrow> Inl e
      | Inr c \<Rightarrow>
          (case resolve_revs st rs of Inl e \<Rightarrow> Inl e | Inr cs \<Rightarrow> Inr (c # cs)))"

definition commit_revs :: "backend \<Rightarrow> string \<Rightarrow> string list \<Rightarrow> unit action" where
  "commit_revs be msg parentRevs st =
     (case resolve_revs st parentRevs of
        Inl e \<Rightarrow> (Inl e, st)
      | Inr parentCommits \<Rightarrow> commit be msg parentCommits st)"

definition get_commit :: "string \<Rightarrow> commit_obj action" where
  "get_commit revision st = (revparse_single st revision, st)"

definition delete_last_commit :: "backend \<Rightarrow> bool \<Rightarrow> unit action" where
  "delete_last_commit be reset =
     bindM (get_commit ''HEAD'') (\<lambda>lastCommit.
       if parentcount lastCommit = 0
       then throwM (UnsupportedOperation ''Can't delete initial commit.'')
       else bindM (commit_parent lastCommit 0) (\<lambda>parent.
              reset_to_commit be parent (if reset then RESET_HARD else RESET_SOFT)))"

definition patch :: "backend \<Rightarrow> string \<Rightarrow> unit action" where
  "patch be msg =
     thenM assert_merging
       (bindM (get_commit ''HEAD'') (\<lambda>headCommit.
          bindM (commit_parents headCommit) (\<lambda>parents.
            thenM (delete_last_commit be False) (commit be msg parents))))"

definition create_branch :: "string \<Rightarrow> unit action" where
  "create_branch name =
     bindM (get_commit ''HEAD'') (\<lambda>c. repo_create_branch name c False)"

text \<open>\<open>branch_exists\<close> turns the \<open>GitException\<close> of the lookup into \<open>false\<close>.\<close>

definition branch_exists :: "repo \<Rightarrow> string \<Rightarrow> bool" where
  "branch_exists st name =
     (case fst (lookup_branch name st) of Inl _ \<Rightarrow> False | Inr _ \<Rightarrow> True)"

text \<open>The loop of \<open>current_branch_name\<close>: the first local branch that is the head.\<close>

fun first_head_branch :: "repo \<Rightarrow> (string \<times> oid) list \<Rightarrow> string option" where
  "first_head_branch st [] = None"
| "first_head_branch st (b # bs) =
     (if is_head st (fst b) then Some (fst b) else first_head_branch st bs)"

definition current_branch_name :: "string action" where
  "current_branch_name st =
     (case first_head_branch st (branches st) of
        Some name \<Rightarrow> (Inr name, st)
      | None \<Rightarrow> (Inl BranchNotFound, st))"

definition delete_branch :: "string \<Rightarrow> unit action" where
  "delete_branch name = bindM (lookup_branch name) branch_delete"

definition checkout :: "backend \<Rightarrow> string \<Rightarrow> unit action" where
  "checkout be name =
     bindM (get_commit name) (\<lambda>c. checkout_tree be (tree (snd c)))"

definition has_uncommitted_changes :: "backend \<Rightarrow> repo \<Rightarrow> bool" where
  "has_uncommitted_changes be st = (0 < be_status be st)"

text \<open>The loop of \<open>get_conflicts\<close> appends a detached copy of each conflict of the index.\<close>

definition get_conflicts :: "git_index \<Rightarrow> conflict list" where
  "get_conflicts idx = foldl (\<lambda>acc c. acc @ [c]) [] (conflicts idx)"

definition move_head :: "string \<Rightarrow> unit action" where
  "move_head name = bindM (lookup_branch name) set_head"

section \<open>merging.cpp\<close>

definition default_merge_message :: "string \<Rightarrow> string" where
  "default_merge_message mergedName = ''Absorbed '' @ mergedName"

text \<open>\<open>read_all\<close> of a file that is not there is the empty string.\<close>

definition get_merge_message :: "repo \<Rightarrow> string" where
  "get_merge_message st = (case merge_msg st of None \<Rightarrow> [] | Some m \<Rightarrow> m)"

definition set_merge_message :: "string \<Rightarrow> unit action" where
  "set_merge_message m st = (Inr (), st\<lparr>merge_msg := Some m\<rparr>)"

definition merge_head_id :: "string action" where
  "merge_head_id = bindM (get_commit ''MERGE_HEAD'') (\<lambda>c. returnM (fst c))"

definition start_merge :: "backend \<Rightarrow> string \<Rightarrow> unit action" where
  "start_merge be name =
     bindM (get_commit name) (\<lambda>otherHead st.
       let analysis = be_merge_analysis be st (fst otherHead) in
       if analysis AND (GIT_MERGE_ANALYSIS_NONE be OR GIT_MERGE_ANALYSIS_UP_TO_DATE be) \<noteq> 0
       then throwM UnnecessaryMerge st
       else if analysis AND GIT_MERGE_ANALYSIS_NORMAL be = 0
       then throwM (UnsupportedOperation ''Non-normal absorb not supported.'') st
       else thenM (repo_merge be (fst otherHead))
              (set_merge_message (default_merge_message name)) st)"

definition resolve :: "backend \<Rightarrow> unit action" where
  "resolve be st =
     (if \<not> merge_ongoing st then throwM NotMerging st
      else bindM merge_head_id (\<lambda>mergeHead.
             bindM (\<lambda>s. (Inr (get_merge_message s), s)) (\<lambda>msg.
               thenM cleanup_state
                 (thenM (\<lambda>s. (Inr (), s\<lparr>index := cleanup_conflicts (index s)\<rparr>))
                    (commit_revs be msg [''HEAD'', mergeHead])))) st)"

definition absorb :: "backend \<Rightarrow> string \<Rightarrow> bool action" where
  "absorb be mergeHead st =
     (if has_suffix mergeHead WIPString
      then throwM (UnsupportedOperation ''Can't absorb WIP branch.'') st
      else thenM assert_merging
             (thenM (start_merge be mergeHead) (\<lambda>s.
                if has_conflicts (index s) then returnM True s
                else thenM (resolve be) (returnM False) s)) st)"

section \<open>The WIP snapshot and the branch switch (metro.cpp)\<close>

definition save_wip :: "backend \<Rightarrow> unit action" where
  "save_wip be st =
     (if \<not> (has_uncommitted_changes be st \<or> merge_ongoing st) then returnM () st
      else bindM current_branch_name (\<lambda>name.
             thenM (catch_git (delete_branch (name @ WIPString)))
               (thenM (create_branch (name @ WIPString))
                  (thenM (move_head (name @ WIPString)) (\<lambda>s.
                     if merge_ongoing s
                     then thenM (commit_revs be (''WIP'' @ [newline] @ get_merge_message s)
                                   [''HEAD'', ''MERGE_HEAD''])
                            cleanup_state s
                     else commit_revs be ''WIP'' [''HEAD''] s)))) st)"

text \<open>
  In \<open>restore_wip\<close>, \<open>newlineIndex\<close> is a \<open>size_t\<close>, so that \<open>newlineIndex >= 0\<close> is a
  comparison of unsigned values and \<open>newlineIndex+1\<close> wraps around at \<open>npos\<close>.
\<close>

definition restore_wip :: "backend \<Rightarrow> unit action" where
  "restore_wip be =
     bindM current_branch_name (\<lambda>name st.
       if \<not> branch_exists st (name @ WIPString) then returnM () st
       else bindM (get_commit (name @ WIPString)) (\<lambda>wipCommit.
              bindM
                (if 1 < parentcount wipCommit then
                   bindM (commit_parent wipCommit 1) (\<lambda>p.
                     let mergeHead = fst p in
                     thenM (start_merge be mergeHead)
                       (thenM
                          (let commitMessage = message (snd wipCommit);
                               newlineIndex = str_find commitMessage newline
                           in if 0 \<le> newlineIndex
                              then (\<lambda>s. case substr commitMessage (newlineIndex + 1) npos of
                                           Inl e \<Rightarrow> (Inl e, s)
                                         | Inr mergeMessage \<Rightarrow> set_merge_message mergeMessage s)
                              else returnM ())
                          (\<lambda>s. (Inr (get_conflicts (index s)),
                                s\<lparr>index := cleanup_conflicts (index s)\<rparr>))))
                 else returnM [])
                (\<lambda>conflicts.
                   thenM (checkout be (name @ WIPString))
                     (thenM (delete_branch (name @ WIPString))
                        (\<lambda>s. (Inr (), s\<lparr>index := foldl add_conflict (index s) conflicts\<rparr>))))) st)"

definition switch_branch :: "backend \<Rightarrow> string \<Rightarrow> unit action" where
  "switch_branch be name st =
     (if has_suffix name WIPString
      then throwM (UnsupportedOperation ''Can't switch to WIP branch.'') st
      else if \<not> branch_exists st name then throwM BranchNotFound st
      else thenM (save_wip be)
             (thenM (checkout be name)
                (thenM (move_head name) (restore_wip be))) st)"

section \<open>A small backend and some repositories\<close>

text \<open>
  A backend to run the operations on concrete repositories.  Staging copies the working
  directory into the index and resolves its conflicts; an index with conflicts cannot be
  written as a tree; a forced checkout overwrites index entries and working directory;
  the analysis reports up-to-date for the head commit and its parents and a normal merge
  for any other commit; the merge takes the files of both sides and reports no conflict.
  The analysis flags have the values of the backend's header: none is \<open>0\<close>, normal
  \<open>1\<close>, up-to-date \<open>2\<close>.
\<close>

definition demo_status :: "repo \<Rightarrow> nat" where
  "demo_status st =
     (case revparse_single st ''HEAD'' of
        Inl _ \<Rightarrow> (if workdir st = [] then 0 else 1)
      | Inr c \<Rightarrow>
          (if tree (snd c) = workdir st \<and> entries (index st) = workdir st then 0 else 1))"

definition demo_analysis :: "repo \<Rightarrow> oid \<Rightarrow> 32 word" where
  "demo_analysis st c =
     (case revparse_single st ''HEAD'' of
        Inl _ \<Rightarrow> 12
      | Inr h \<Rightarrow> (if c = fst h \<or> c \<in> set (parents (snd h)) then 2 else 1))"

definition demo_merge :: "repo \<Rightarrow> oid \<Rightarrow> (git_index \<times> files) option" where
  "demo_merge st c =
     (case commits st c of
        None \<Rightarrow> None
      | Some obj \<Rightarrow>
          Some (\<lparr>entries = entries (index st) @ tree obj, conflicts = []\<rparr>,
               workdir st @ tree obj))"

definition demo_backend :: backend where
  "demo_backend =
     \<lparr>be_hash = (\<lambda>c. ''id-'' @ message c),
      be_status = demo_status,
      be_add_all = (\<lambda>wd idx. \<lparr>entries = wd, conflicts = []\<rparr>),
      be_write_tree = (\<lambda>idx. if conflicts idx = [] then Some (entries idx) else None),
      be_checkout_tree = (\<lambda>t iw. ((fst iw)\<lparr>entries := t\<rparr>, t)),
      be_merge_analysis = demo_analysis,
      be_merge = demo_merge,
      GIT_MERGE_ANALYSIS_NONE = 0,
      GIT_MERGE_ANALYSIS_NORMAL = 1,
      GIT_MERGE_ANALYSIS_UP_TO_DATE = 2\<rparr>"

text \<open>The same backend with an analysis that reports \<open>GIT_MERGE_ANALYSIS_NONE\<close>.\<close>

definition none_backend :: backend where
  "none_backend = demo_backend\<lparr>be_merge_analysis := (\<lambda>st c. 0)\<rparr>"

definition demo_commits :: "oid \<rightharpoonup> git_commit" where
  "demo_commits =
     [''c0'' \<mapsto> \<lparr>parents = [], message = ''Create repository'', tree = []\<rparr>,
      ''c1'' \<mapsto> \<lparr>parents = [''c0''], message = ''first'', tree = [(''a.txt'', ''one'')]\<rparr>,
      ''c2'' \<mapsto> \<lparr>parents = [''c0''], message = ''side'', tree = [(''b.txt'', ''two'')]\<rparr>]"

text \<open>On \<open>main\<close> at \<open>c1\<close>, nothing changed since that commit, no merge.\<close>

definition clean_repo :: repo where
  "clean_repo =
     \<lparr>commits = demo_commits,
      branches = [(''main'', ''c1''), (''feature'', ''c2'')],
      head = Attached ''main'',
      index = \<lparr>entries = [(''a.txt'', ''one'')], conflicts = []\<rparr>,
      workdir = [(''a.txt'', ''one'')],
      merge_head = None,
      merge_msg = None\<rparr>"

text \<open>The same with an edited file.\<close>

definition dirty_repo :: repo where
  "dirty_repo = clean_repo\<lparr>workdir := [(''a.txt'', ''edited'')]\<rparr>"

text \<open>The same in the middle of absorbing \<open>feature\<close>.\<close>

definition merging_repo :: repo where
  "merging_repo =
     clean_repo\<lparr>index := \<lparr>entries = [(''a.txt'', ''one''), (''b.txt'', ''two'')], conflicts = []\<rparr>,
                workdir := [(''a.txt'', ''one''), (''b.txt'', ''two'')],
                merge_head := Some ''c2'',
                merge_msg := Some ''Absorbed feature''\<rparr>"

text \<open>On the root commit \<open>c0\<close>, which has no parent.\<close>

definition root_repo :: repo where
  "root_repo = clean_repo\<lparr>branches := [(''main'', ''c0'')], index := \<lparr>entries = [], conflicts = []\<rparr>,
                          workdir := []\<rparr>"

text \<open>With a stale WIP branch \<open>old#wip\<close> at \<open>c0\<close>, the parent of the head commit.\<close>

definition stale_wip_repo :: repo where
  "stale_wip_repo =
     clean_repo\<lparr>branches := [(''main'', ''c1''), (''feature'', ''c2''), (''old#wip'', ''c0'')]\<rparr>"

text \<open>
  With a WIP branch for \<open>main\<close> whose commit has two parents and a message of one line,
  which \<open>save_wip\<close> never writes.
\<close>

definition tampered_repo :: repo where
  "tampered_repo =
     clean_repo\<lparr>commits := demo_commits(''w1'' \<mapsto>
                   \<lparr>parents = [''c1'', ''c2''], message = ''WIP'',
                    tree = [(''a.txt'', ''one''), (''b.txt'', ''two'')]\<rparr>),
                branches := [(''main'', ''c1''), (''feature'', ''c2''), (''main#wip'', ''w1'')]\<rparr>"

section \<open>Facts about the string helpers\<close>

lemma unat_minus_one_size_t: "unat (- 1 :: size_t) = 2 ^ 64 - 1"
  by (simp add: unsigned_minus_1_eq_mask mask_eq_exp_minus_1)

lemma find_first_None: "find_first c s = None \<longleftrightarrow> c \<notin> set s"
  by (induction s) auto

lemma find_first_Some:
  "find_first c s = Some i \<Longrightarrow>
     i < length s \<and> take i s = takeWhile (\<lambda>x. x \<noteq> c) s
     \<and> drop (Suc i) s = tl (dropWhile (\<lambda>x. x \<noteq> c) s)"
proof (induction s arbitrary: i)
  case Nil
  then show ?case by simp
next
  case (Cons x xs)
  show ?case
  proof (cases "x = c")
    case True
    with Cons.prems show ?thesis by simp
  next
    case False
    with Cons.prems obtain j where j: "find_first c xs = Some j" "i = Suc j"
      by auto
    from Cons.IH [OF j(1)] j(2) False show ?thesis by simp
  qed
qed

lemma compare_chars_zero: "compare_chars xs ys = 0 \<longleftrightarrow> xs = ys"
proof (induction xs ys rule: compare_chars.induct)
  case (4 x xs y ys)
  have "(of_char x :: nat) = of_char y \<longleftrightarrow> x = y"
    by (metis char_of_char)
  with 4 show ?case by (auto simp: not_less)
qed simp_all

lemma has_suffix_iff: "has_suffix str suff \<longleftrightarrow> suffix suff str"
proof (cases "length suff \<le> length str")
  case True
  then have "has_suffix str suff \<longleftrightarrow> drop (length str - length suff) str = suff"
    by (simp add: has_suffix_def str_compare_def compare_chars_zero)
  also have "\<dots> \<longleftrightarrow> suffix suff str"
    by (metis True append_take_drop_id diff_diff_cancel length_drop suffix_drop suffixE
        append_eq_append_conv)
  finally show ?thesis .
next
  case False
  then show ?thesis
    by (auto simp: has_suffix_def dest: suffix_length_le)
qed

text \<open>
  C10: for every string (of a length a \<open>size_t\<close> can hold) and every character,
  \<open>split_at_first\<close> returns normally; when the character does not occur, \<open>before\<close> is the
  whole string and \<open>after\<close> is empty; otherwise \<open>before\<close> is the part strictly before the
  first occurrence and \<open>after\<close> the part strictly after it.
\<close>

theorem split_at_first_spec:
  assumes "length s < 2 ^ 64"
  shows "split_at_first s c =
           Inr (if c \<in> set s
                then (takeWhile (\<lambda>x. x \<noteq> c) s, tl (dropWhile (\<lambda>x. x \<noteq> c) s))
                else (s, []))"
proof (cases "find_first c s")
  case None
  then have "c \<notin> set s" by (simp add: find_first_None)
  with None show ?thesis
    by (simp add: split_at_first_def str_find_def npos_def)
next
  case (Some i)
  then have mem: "c \<in> set s"
    using find_first_None [of c s] by auto
  from find_first_Some [OF Some]
  have i: "i < length s"
    and tk: "take i s = takeWhile (\<lambda>x. x \<noteq> c) s"
    and dr: "drop (Suc i) s = tl (dropWhile (\<lambda>x. x \<noteq> c) s)"
    by simp_all
  from i assms have small: "Suc i < 2 ^ 64" by simp
  have ui: "unat (of_nat i :: size_t) = i"
    using small by (simp add: unat_of_nat)
  have usi: "unat (of_nat i + 1 :: size_t) = Suc i"
  proof -
    have "(of_nat i + 1 :: size_t) = of_nat (Suc i)" by simp
    then show ?thesis using small by (simp only: unat_of_nat) simp
  qed
  have ne: "(of_nat i :: size_t) \<noteq> - 1"
  proof
    assume "(of_nat i :: size_t) = - 1"
    then have "unat (of_nat i :: size_t) = unat (- 1 :: size_t)" by simp
    with ui have "i = 2 ^ 64 - 1" by (simp only: unat_minus_one_size_t)
    with small show False by simp
  qed
  have un: "unat npos = 2 ^ 64 - 1"
    by (simp only: npos_def unat_minus_one_size_t)
  have before: "substr s 0 (of_nat i) = Inr (takeWhile (\<lambda>x. x \<noteq> c) s)"
    by (simp add: substr_def ui tk)
  have "take (unat npos) (drop (Suc i) s) = drop (Suc i) s"
    using assms un by simp
  with i have after: "substr s (of_nat i + 1) npos = Inr (tl (dropWhile (\<lambda>x. x \<noteq> c) s))"
    by (simp only: substr_def usi dr) simp
  have "str_find s c = of_nat i"
    by (simp add: str_find_def Some)
  with mem ne show ?thesis
    by (simp add: split_at_first_def before after)
qed

theorem split_at_first_spec_witness:
  "length ''a=b=c'' < 2 ^ 64 \<and> split_at_first ''a=b=c'' CHR ''='' = Inr (''a'', ''b=c'')"
proof -
  have h: "length ''a=b=c'' < 2 ^ 64" by simp
  show ?thesis using h split_at_first_spec [OF h, of "CHR ''=''"] by simp
qed

section \<open>Facts about the store and the operations\<close>

lemmas monad_defs = returnM_def throwM_def bindM_def thenM_def

lemma WIPString_not_Nil: "WIPString \<noteq> []"
  by (simp add: WIPString_def)

lemma first_head_branch_Some:
  "first_head_branch st bs = Some n \<Longrightarrow> head st = Attached n \<and> n \<in> fst ` set bs"
  by (induction bs) (auto simp: is_head_def split: if_splits)

lemma first_head_branch_attached:
  "head st = Attached n \<Longrightarrow> n \<in> fst ` set bs \<Longrightarrow> first_head_branch st bs = Some n"
  by (induction bs) (auto simp: is_head_def)

lemma delete_absent: "map_of al k = None \<Longrightarrow> AList.delete k al = al"
  by (induction al) (auto split: if_splits)

lemma catch_git_delete_branch:
  "catch_git (delete_branch n) st = (Inr (), st\<lparr>branches := AList.delete n (branches st)\<rparr>)"
  by (cases "map_of (branches st) n")
     (simp_all add: catch_git_def delete_branch_def lookup_branch_def branch_delete_def
        monad_defs delete_absent)

lemma merge_ongoing_iff:
  "merge_ongoing st \<longleftrightarrow> (\<exists>m. merge_head st = Some m \<and> commits st m \<noteq> None)"
  by (auto simp: merge_ongoing_def revparse_single_def split: option.splits)

lemma map_of_dom: "map_of al k = Some v \<Longrightarrow> k \<in> fst ` set al"
  by (metis map_of_eq_None_iff option.distinct(1))

lemma merge_ongoing_cong:
  "merge_head s = merge_head st \<Longrightarrow> commits s = commits st \<Longrightarrow> merge_ongoing s = merge_ongoing st"
  by (simp add: merge_ongoing_iff)

lemma revparse_HEAD:
  "revparse_single st ''HEAD'' = Inr (h, hc) \<longleftrightarrow> head_target st = Some h \<and> commits st h = Some hc"
  by (auto simp: revparse_single_def split: option.splits)

lemma revparse_MERGE_HEAD:
  "revparse_single st ''MERGE_HEAD'' = Inr (m, mc) \<longleftrightarrow> merge_head st = Some m \<and> commits st m = Some mc"
  by (auto simp: revparse_single_def split: option.splits)

lemma wip_branch_setup:
  assumes cur: "first_head_branch st (branches st) = Some name"
      and hd: "revparse_single st ''HEAD'' = Inr (h, hc)"
  shows "thenM (catch_git (delete_branch (name @ WIPString)))
           (thenM (create_branch (name @ WIPString)) (move_head (name @ WIPString))) st =
         (Inr (), st\<lparr>branches := AList.update (name @ WIPString) h
                                    (AList.delete (name @ WIPString) (branches st)),
                     head := Attached (name @ WIPString)\<rparr>)"
proof -
  from first_head_branch_Some [OF cur]
  have att: "head st = Attached name" by simp
  from hd att have tgt: "map_of (branches st) name = Some h" and obj: "commits st h = Some hc"
    by (simp_all add: revparse_HEAD head_target_def)
  have ne: "name \<noteq> name @ WIPString"
    using WIPString_not_Nil by simp
  show ?thesis
    using att tgt obj ne
    by (simp add: monad_defs catch_git_delete_branch create_branch_def get_commit_def
        repo_create_branch_def move_head_def lookup_branch_def set_head_def
        revparse_single_def head_target_def delete_conv' update_conv')
qed

lemma commit_result:
  assumes wt: "be_write_tree be (be_add_all be (workdir st) (index st)) = Some t"
  shows "commit be msg ps st =
           (Inr (), set_head_target (be_hash be \<lparr>parents = map fst ps, message = msg, tree = t\<rparr>)
                      (st\<lparr>index := be_add_all be (workdir st) (index st),
                          commits := (commits st)
                             (be_hash be \<lparr>parents = map fst ps, message = msg, tree = t\<rparr> \<mapsto>
                                \<lparr>parents = map fst ps, message = msg, tree = t\<rparr>)\<rparr>))"
  using wt by (simp add: commit_def create_commit_def monad_defs Let_def)

lemma thenM_assoc3:
  "thenM a (thenM b (thenM c k)) st =
     (case thenM a (thenM b c) st of (Inl e, s) \<Rightarrow> (Inl e, s) | (Inr x, s) \<Rightarrow> k s)"
  by (simp add: monad_defs split: prod.splits sum.splits)

lemma save_wip_plain:
  assumes dirty: "has_uncommitted_changes be st"
      and nm: "\<not> merge_ongoing st"
      and cur: "first_head_branch st (branches st) = Some name"
      and hd: "revparse_single st ''HEAD'' = Inr (h, hc)"
      and wt: "be_write_tree be (be_add_all be (workdir st) (index st)) = Some t"
  shows "save_wip be st =
           (Inr (),
            st\<lparr>commits := (commits st)
                  (be_hash be \<lparr>parents = [h], message = ''WIP'', tree = t\<rparr> \<mapsto>
                     \<lparr>parents = [h], message = ''WIP'', tree = t\<rparr>),
               branches := AList.update (name @ WIPString)
                  (be_hash be \<lparr>parents = [h], message = ''WIP'', tree = t\<rparr>)
                  (AList.delete (name @ WIPString) (branches st)),
               head := Attached (name @ WIPString),
               index := be_add_all be (workdir st) (index st)\<rparr>)"
proof -
  define s where "s = st\<lparr>branches := AList.update (name @ WIPString) h
                                    (AList.delete (name @ WIPString) (branches st)),
                     head := Attached (name @ WIPString)\<rparr>"
  have pre: "thenM (catch_git (delete_branch (name @ WIPString)))
           (thenM (create_branch (name @ WIPString)) (move_head (name @ WIPString))) st = (Inr (), s)"
    unfolding s_def by (rule wip_branch_setup [OF cur hd])
  from hd have obj: "commits st h = Some hc"
    by (simp add: revparse_HEAD)
  have hd_s: "revparse_single s ''HEAD'' = Inr (h, hc)"
    using obj by (simp add: revparse_HEAD head_target_def s_def update_conv')
  have nm_s: "\<not> merge_ongoing s"
    using nm merge_ongoing_cong [of s st] by (simp add: s_def)
  have wt_s: "be_write_tree be (be_add_all be (workdir s) (index s)) = Some t"
    using wt by (simp add: s_def)
  have "save_wip be st = commit_revs be ''WIP'' [''HEAD''] s"
    using dirty cur nm_s
    by (simp add: save_wip_def current_branch_name_def thenM_assoc3 pre bindM_def)
  also have "\<dots> = commit be ''WIP'' [(h, hc)] s"
    by (simp add: commit_revs_def hd_s)
  finally show ?thesis
    by (simp add: commit_result [OF wt_s] set_head_target_def) (simp add: s_def)
qed

lemma save_wip_merging:
  assumes mg: "merge_ongoing st"
      and mh: "merge_head st = Some m"
      and cur: "first_head_branch st (branches st) = Some name"
      and hd: "revparse_single st ''HEAD'' = Inr (h, hc)"
      and wt: "be_write_tree be (be_add_all be (workdir st) (index st)) = Some t"
  shows "save_wip be st =
           (Inr (),
            st\<lparr>commits := (commits st)
                  (be_hash be \<lparr>parents = [h, m],
                               message = ''WIP'' @ [newline] @ get_merge_message st, tree = t\<rparr> \<mapsto>
                     \<lparr>parents = [h, m],
                      message = ''WIP'' @ [newline] @ get_merge_message st, tree = t\<rparr>),
               branches := AList.update (name @ WIPString)
                  (be_hash be \<lparr>parents = [h, m],
                               message = ''WIP'' @ [newline] @ get_merge_message st, tree = t\<rparr>)
                  (AList.delete (name @ WIPString) (branches st)),
               head := Attached (name @ WIPString),
               index := be_add_all be (workdir st) (index st),
               merge_head := None,
               merge_msg := None\<rparr>)"
proof -
  define s where "s = st\<lparr>branches := AList.update (name @ WIPString) h
                                    (AList.delete (name @ WIPString) (branches st)),
                     head := Attached (name @ WIPString)\<rparr>"
  have pre: "thenM (catch_git (delete_branch (name @ WIPString)))
           (thenM (create_branch (name @ WIPString)) (move_head (name @ WIPString))) st = (Inr (), s)"
    unfolding s_def by (rule wip_branch_setup [OF cur hd])
  from hd have obj: "commits st h = Some hc"
    by (simp add: revparse_HEAD)
  from mg mh obtain mc where mc: "commits st m = Some mc"
    by (auto simp: merge_ongoing_iff)
  have hd_s: "revparse_single s ''HEAD'' = Inr (h, hc)"
    using obj by (simp add: revparse_HEAD head_target_def s_def update_conv')
  have mh_s: "revparse_single s ''MERGE_HEAD'' = Inr (m, mc)"
    using mh mc by (simp add: revparse_MERGE_HEAD s_def)
  have mg_s: "merge_ongoing s"
    using mg merge_ongoing_cong [of s st] by (simp add: s_def)
  have msg_s: "get_merge_message s = get_merge_message st"
    by (simp add: get_merge_message_def s_def)
  have wt_s: "be_write_tree be (be_add_all be (workdir s) (index s)) = Some t"
    using wt by (simp add: s_def)
  have "save_wip be st =
          thenM (commit_revs be (''WIP'' @ [newline] @ get_merge_message st)
                   [''HEAD'', ''MERGE_HEAD'']) cleanup_state s"
    using mg cur mg_s
    by (simp add: save_wip_def current_branch_name_def thenM_assoc3 pre bindM_def msg_s)
  also have "\<dots> = thenM (commit be (''WIP'' @ [newline] @ get_merge_message st) [(h, hc), (m, mc)])
                     cleanup_state s"
    by (simp add: commit_revs_def hd_s mh_s monad_defs)
  finally show ?thesis
    by (simp add: commit_result [OF wt_s] set_head_target_def monad_defs cleanup_state_def)
       (simp add: s_def)
qed


lemmas op_defs =
  save_wip_def restore_wip_def switch_branch_def absorb_def resolve_def start_merge_def
  patch_def delete_last_commit_def commit_def commit_revs_def create_branch_def
  delete_branch_def move_head_def checkout_def current_branch_name_def get_commit_def
  merge_head_id_def assert_merging_def has_uncommitted_changes_def merge_ongoing_def
  branch_exists_def get_conflicts_def default_merge_message_def get_merge_message_def
  set_merge_message_def

lemmas store_defs =
  revparse_single_def head_target_def set_head_target_def parentcount_def lookup_commit_def
  commit_parent_def commit_parents_def create_commit_def reset_to_commit_def lookup_branch_def
  repo_create_branch_def branch_delete_def is_head_def set_head_def checkout_tree_def
  cleanup_state_def has_conflicts_def cleanup_conflicts_def add_conflict_def repo_merge_def
  catch_git_def Let_def

lemmas demo_defs =
  demo_backend_def none_backend_def demo_status_def demo_analysis_def demo_merge_def
  demo_commits_def clean_repo_def dirty_repo_def merging_repo_def root_repo_def
  stale_wip_repo_def tampered_repo_def WIPString_def

lemma save_wip_no_branch:
  assumes "has_uncommitted_changes be st \<or> merge_ongoing st"
      and "first_head_branch st (branches st) = None"
  shows "fst (save_wip be st) = Inl BranchNotFound"
  using assms by (auto simp: save_wip_def current_branch_name_def monad_defs)

lemma save_wip_no_head:
  assumes dirty: "has_uncommitted_changes be st \<or> merge_ongoing st"
      and cur: "first_head_branch st (branches st) = Some name"
      and hd: "revparse_single st ''HEAD'' = Inl e"
  shows "fst (save_wip be st) = Inl e"
proof -
  from first_head_branch_Some [OF cur]
  have att: "head st = Attached name" by simp
  have ne: "name \<noteq> name @ WIPString"
    using WIPString_not_Nil by simp
  have "revparse_single (st\<lparr>branches := AList.delete (name @ WIPString) (branches st)\<rparr>) ''HEAD''
          = revparse_single st ''HEAD''"
    using att ne by (simp add: revparse_single_def head_target_def delete_conv' split: option.splits)
  with hd dirty cur show ?thesis
    by (auto simp: save_wip_def current_branch_name_def monad_defs catch_git_delete_branch
        create_branch_def get_commit_def)
qed

lemma commit_fails:
  assumes "be_write_tree be (be_add_all be (workdir st) (index st)) = None"
  shows "fst (commit be msg ps st) = Inl GitException"
  using assms by (simp add: commit_def)


lemma save_wip_success:
  assumes dirty: "has_uncommitted_changes be st \<or> merge_ongoing st"
      and ok: "fst (save_wip be st) = Inr ()"
  obtains name h hc t where
    "first_head_branch st (branches st) = Some name"
    "revparse_single st ''HEAD'' = Inr (h, hc)"
    "be_write_tree be (be_add_all be (workdir st) (index st)) = Some t"
proof -
  obtain name where cur: "first_head_branch st (branches st) = Some name"
    using save_wip_no_branch [OF dirty] ok by (cases "first_head_branch st (branches st)") auto
  obtain h hc where hd: "revparse_single st ''HEAD'' = Inr (h, hc)"
    using save_wip_no_head [OF dirty cur] ok by (cases "revparse_single st ''HEAD''") auto
  define s where "s = st\<lparr>branches := AList.update (name @ WIPString) h
                                    (AList.delete (name @ WIPString) (branches st)),
                     head := Attached (name @ WIPString)\<rparr>"
  have pre: "thenM (catch_git (delete_branch (name @ WIPString)))
           (thenM (create_branch (name @ WIPString)) (move_head (name @ WIPString))) st = (Inr (), s)"
    unfolding s_def by (rule wip_branch_setup [OF cur hd])
  have "\<exists>t. be_write_tree be (be_add_all be (workdir st) (index st)) = Some t"
  proof (cases "be_write_tree be (be_add_all be (workdir st) (index st))")
    case None
    then have wt_s: "be_write_tree be (be_add_all be (workdir s) (index s)) = None"
      by (simp add: s_def)
    have "\<And>msg ps. fst (commit be msg ps s) = Inl GitException"
      by (rule commit_fails [OF wt_s])
    then have "\<And>msg revs. fst (commit_revs be msg revs s) \<noteq> Inr ()"
      by (auto simp: commit_revs_def split: sum.splits)
    then have nc: "\<And>msg revs. \<exists>e' s'. commit_revs be msg revs s = (Inl e', s')"
      by (metis (full_types) old.sum.exhaust old.unit.exhaust prod.collapse)
    have "save_wip be st =
            (if merge_ongoing s
             then thenM (commit_revs be (''WIP'' @ [newline] @ get_merge_message s)
                           [''HEAD'', ''MERGE_HEAD'']) cleanup_state s
             else commit_revs be ''WIP'' [''HEAD''] s)"
      using dirty cur
      by (simp add: save_wip_def current_branch_name_def thenM_assoc3 pre bindM_def)
    moreover have "fst (commit_revs be ''WIP'' [''HEAD''] s) \<noteq> Inr ()"
      using nc [of "''WIP''" "[''HEAD'']"] by auto
    moreover have "fst (thenM (commit_revs be (''WIP'' @ [newline] @ get_merge_message s)
                           [''HEAD'', ''MERGE_HEAD'']) cleanup_state s) \<noteq> Inr ()"
      using nc [of "''WIP'' @ [newline] @ get_merge_message s" "[''HEAD'', ''MERGE_HEAD'']"]
      by (auto simp: monad_defs)
    ultimately have "fst (save_wip be st) \<noteq> Inr ()"
      by simp
    with ok show ?thesis by simp
  next
    case (Some t)
    then show ?thesis by blast
  qed
  then obtain t where "be_write_tree be (be_add_all be (workdir st) (index st)) = Some t" ..
  with cur hd show ?thesis by (rule that)
qed

section \<open>The WIP snapshot\<close>

text \<open>
  C4: on a repository with a clean working directory (an empty status list, untracked
  files included) and no merge in progress, \<open>save_wip\<close> returns normally and leaves the
  whole state as it was: no branch is created or deleted, no commit is created and the
  head does not move.
\<close>

theorem save_wip_clean_noop:
  assumes "\<not> has_uncommitted_changes be st" and "\<not> merge_ongoing st"
  shows "save_wip be st = (Inr (), st)"
  using assms by (simp add: save_wip_def returnM_def)

theorem save_wip_clean_noop_witness:
  "\<not> has_uncommitted_changes demo_backend clean_repo \<and> \<not> merge_ongoing clean_repo
   \<and> save_wip demo_backend clean_repo = (Inr (), clean_repo)"
proof -
  have h1: "\<not> has_uncommitted_changes demo_backend clean_repo"
    by (simp add: op_defs store_defs demo_defs)
  have h2: "\<not> merge_ongoing clean_repo"
    by (simp add: op_defs store_defs demo_defs)
  from save_wip_clean_noop [OF h1 h2] h1 h2 show ?thesis by simp
qed

text \<open>
  C5: whenever \<open>save_wip\<close> has something to save and returns normally, the commit it
  created is the target of the WIP branch and is in the store; without a merge in progress
  it has the message \<open>WIP\<close> and one parent, the previous head; with a merge in progress
  it has the message \<open>WIP\<close>, a line break and the stored merge message, and two parents,
  the previous head and the merge head, and the merge state is gone afterwards (the commit
  still names the merge head, so it was created first).
\<close>

theorem save_wip_commit_shape:
  assumes dirty: "has_uncommitted_changes be st \<or> merge_ongoing st"
      and ok: "fst (save_wip be st) = Inr ()"
  shows "\<exists>name h t.
           first_head_branch st (branches st) = Some name
         \<and> head_target st = Some h
         \<and> be_write_tree be (be_add_all be (workdir st) (index st)) = Some t
         \<and> (if merge_ongoing st
            then \<exists>m. merge_head st = Some m
                   \<and> commits (snd (save_wip be st))
                        (be_hash be \<lparr>parents = [h, m],
                           message = ''WIP'' @ [newline] @ get_merge_message st, tree = t\<rparr>)
                      = Some \<lparr>parents = [h, m],
                           message = ''WIP'' @ [newline] @ get_merge_message st, tree = t\<rparr>
                   \<and> map_of (branches (snd (save_wip be st))) (name @ WIPString)
                      = Some (be_hash be \<lparr>parents = [h, m],
                           message = ''WIP'' @ [newline] @ get_merge_message st, tree = t\<rparr>)
                   \<and> merge_head (snd (save_wip be st)) = None
                   \<and> merge_msg (snd (save_wip be st)) = None
            else commits (snd (save_wip be st))
                        (be_hash be \<lparr>parents = [h], message = ''WIP'', tree = t\<rparr>)
                      = Some \<lparr>parents = [h], message = ''WIP'', tree = t\<rparr>
                   \<and> map_of (branches (snd (save_wip be st))) (name @ WIPString)
                      = Some (be_hash be \<lparr>parents = [h], message = ''WIP'', tree = t\<rparr>))"
proof -
  from dirty ok obtain name h hc t where
    cur: "first_head_branch st (branches st) = Some name"
    and hd: "revparse_single st ''HEAD'' = Inr (h, hc)"
    and wt: "be_write_tree be (be_add_all be (workdir st) (index st)) = Some t"
    by (rule save_wip_success)
  from hd have tgt: "head_target st = Some h"
    by (simp add: revparse_HEAD)
  show ?thesis
  proof (cases "merge_ongoing st")
    case True
    then obtain m where mh: "merge_head st = Some m"
      by (auto simp: merge_ongoing_iff)
    show ?thesis
      using True cur tgt wt mh
      by (simp add: save_wip_merging [OF True mh cur hd wt] update_conv')
  next
    case False
    with dirty have d: "has_uncommitted_changes be st" by simp
    show ?thesis
      using False cur tgt wt
      by (simp add: save_wip_plain [OF d False cur hd wt] update_conv')
  qed
qed

theorem save_wip_commit_shape_witness:
  "(has_uncommitted_changes demo_backend merging_repo \<or> merge_ongoing merging_repo)
   \<and> fst (save_wip demo_backend merging_repo) = Inr ()
   \<and> map_of (branches (snd (save_wip demo_backend merging_repo))) ''main#wip''
       = Some (''id-WIP'' @ [newline] @ ''Absorbed feature'')
   \<and> commits (snd (save_wip demo_backend merging_repo))
         (''id-WIP'' @ [newline] @ ''Absorbed feature'')
       = Some \<lparr>parents = [''c1'', ''c2''], message = ''WIP'' @ [newline] @ ''Absorbed feature'',
                tree = [(''a.txt'', ''one''), (''b.txt'', ''two'')]\<rparr>
   \<and> merge_head (snd (save_wip demo_backend merging_repo)) = None"
proof -
  have h1: "has_uncommitted_changes demo_backend merging_repo \<or> merge_ongoing merging_repo"
    by (simp add: op_defs store_defs demo_defs)
  have h2: "fst (save_wip demo_backend merging_repo) = Inr ()"
    by (simp add: op_defs store_defs demo_defs monad_defs)
  have mg: "merge_ongoing merging_repo"
    by (simp add: op_defs store_defs demo_defs)
  have ev: "first_head_branch merging_repo (branches merging_repo) = Some ''main''"
    "head_target merging_repo = Some ''c1''"
    "merge_head merging_repo = Some ''c2''"
    "get_merge_message merging_repo = ''Absorbed feature''"
    "be_write_tree demo_backend (be_add_all demo_backend (workdir merging_repo) (index merging_repo))
       = Some [(''a.txt'', ''one''), (''b.txt'', ''two'')]"
    "be_hash demo_backend = (\<lambda>c. ''id-'' @ message c)"
    by (simp_all add: op_defs store_defs demo_defs)
  from save_wip_commit_shape [OF h1 h2] h1 h2 show ?thesis
    by (auto simp: mg ev WIPString_def)
qed


lemma flag_in_mask:
  fixes a n u :: "32 word"
  shows "a AND (n OR u) \<noteq> 0 \<longleftrightarrow> a AND u \<noteq> 0 \<or> a AND n \<noteq> 0"
proof -
  have "a AND (n OR u) = (a AND n) OR (a AND u)"
    by (simp add: bit.conj_disj_distrib)
  then show ?thesis
    by (auto simp: or_eq_0_iff)
qed

lemma start_merge_cases:
  assumes "revparse_single st name = Inr (c, obj)"
  shows "start_merge be name st =
          (if be_merge_analysis be st c AND GIT_MERGE_ANALYSIS_UP_TO_DATE be \<noteq> 0
              \<or> be_merge_analysis be st c AND GIT_MERGE_ANALYSIS_NONE be \<noteq> 0
           then (Inl UnnecessaryMerge, st)
           else if be_merge_analysis be st c AND GIT_MERGE_ANALYSIS_NORMAL be = 0
           then (Inl (UnsupportedOperation ''Non-normal absorb not supported.''), st)
           else (case be_merge be st c of
                   None \<Rightarrow> (Inl GitException, st)
                 | Some (idx, wd) \<Rightarrow>
                     (Inr (), st\<lparr>index := idx, workdir := wd, merge_head := Some c,
                                 merge_msg := Some (''Absorbed '' @ name)\<rparr>)))"
  using assms
  by (simp add: start_merge_def get_commit_def monad_defs flag_in_mask repo_merge_def
      set_merge_message_def default_merge_message_def split: option.splits)

lemma get_conflicts_eq: "get_conflicts idx = conflicts idx"
proof -
  have "foldl (\<lambda>acc c. acc @ [c]) acc xs = acc @ xs" for acc and xs :: "conflict list"
    by (induction xs arbitrary: acc) simp_all
  then show ?thesis by (simp add: get_conflicts_def)
qed

lemma foldl_add_conflict:
  "foldl add_conflict idx cs = idx\<lparr>conflicts := conflicts idx @ cs\<rparr>"
  by (induction cs arbitrary: idx) (simp_all add: add_conflict_def)

lemma wip_name_not_reserved:
  "name @ WIPString \<noteq> ''HEAD''" "name @ WIPString \<noteq> ''MERGE_HEAD''"
proof -
  have "last (name @ WIPString) = CHR ''p''"
    by (simp add: WIPString_def)
  then show "name @ WIPString \<noteq> ''HEAD''" "name @ WIPString \<noteq> ''MERGE_HEAD''"
    by auto
qed

lemma restore_wip_plain:
  assumes att: "head s = Attached name"
      and br: "map_of (branches s) name = Some h"
      and wip: "map_of (branches s) (name @ WIPString) = Some new"
      and obj: "commits s new = Some \<lparr>parents = [p], message = msg, tree = t\<rparr>"
      and noid: "commits s (name @ WIPString) = None"
  shows "restore_wip be s =
           (Inr (), s\<lparr>branches := AList.delete (name @ WIPString) (branches s),
                       index := fst (be_checkout_tree be t (index s, workdir s)),
                       workdir := snd (be_checkout_tree be t (index s, workdir s))\<rparr>)"
proof -
  from br have "name \<in> fst ` set (branches s)"
    by (rule map_of_dom)
  with att have cur: "first_head_branch s (branches s) = Some name"
    by (rule first_head_branch_attached)
  have rev: "revparse_single s (name @ WIPString)
               = Inr (new, \<lparr>parents = [p], message = msg, tree = t\<rparr>)"
    using wip obj noid by (simp add: revparse_single_def wip_name_not_reserved)
  show ?thesis
    using cur wip rev
    by (simp add: restore_wip_def current_branch_name_def branch_exists_def lookup_branch_def
        get_commit_def parentcount_def checkout_def checkout_tree_def delete_branch_def
        branch_delete_def monad_defs split_beta)
qed


lemma wip_message_split:
  assumes "length mm < 2 ^ 64"
  shows "str_find (CHR ''W'' # CHR ''I'' # CHR ''P'' # newline # mm) newline = 3"
    and "substr (CHR ''W'' # CHR ''I'' # CHR ''P'' # newline # mm) 4 npos = Inr mm"
proof -
  show "str_find (CHR ''W'' # CHR ''I'' # CHR ''P'' # newline # mm) newline = 3"
    by (simp add: str_find_def newline_def)
  have "unat npos = 2 ^ 64 - 1"
    by (simp only: npos_def unat_minus_one_size_t)
  with assms have "take (unat npos) mm = mm"
    by simp
  moreover have "unat (4 :: size_t) = 4"
    by simp
  ultimately show "substr (CHR ''W'' # CHR ''I'' # CHR ''P'' # newline # mm) 4 npos = Inr mm"
    by (simp add: substr_def)
qed

lemma restore_wip_merging:
  assumes att: "head s = Attached name"
      and br: "map_of (branches s) name = Some h"
      and wip: "map_of (branches s) (name @ WIPString) = Some new"
      and obj: "commits s new
                  = Some \<lparr>parents = [p, m], message = ''WIP'' @ [newline] @ mm, tree = t\<rparr>"
      and noid: "commits s (name @ WIPString) = None"
      and mobj: "commits s m = Some mc"
      and res: "m \<noteq> ''HEAD''" "m \<noteq> ''MERGE_HEAD''"
      and len: "length mm < 2 ^ 64"
      and utd: "be_merge_analysis be s m AND GIT_MERGE_ANALYSIS_UP_TO_DATE be = 0"
      and non: "be_merge_analysis be s m AND GIT_MERGE_ANALYSIS_NONE be = 0"
      and nrm: "be_merge_analysis be s m AND GIT_MERGE_ANALYSIS_NORMAL be \<noteq> 0"
      and mrg: "be_merge be s m = Some (idx, wd)"
  shows "restore_wip be s =
           (Inr (),
            s\<lparr>branches := AList.delete (name @ WIPString) (branches s),
               index := (fst (be_checkout_tree be t (cleanup_conflicts idx, wd)))
                          \<lparr>conflicts :=
                             conflicts (fst (be_checkout_tree be t (cleanup_conflicts idx, wd)))
                             @ conflicts idx\<rparr>,
               workdir := snd (be_checkout_tree be t (cleanup_conflicts idx, wd)),
               merge_head := Some m,
               merge_msg := Some mm\<rparr>)"
proof -
  from br have "name \<in> fst ` set (branches s)"
    by (rule map_of_dom)
  with att have cur: "first_head_branch s (branches s) = Some name"
    by (rule first_head_branch_attached)
  have rev: "revparse_single s (name @ WIPString)
               = Inr (new, \<lparr>parents = [p, m], message = ''WIP'' @ [newline] @ mm, tree = t\<rparr>)"
    using wip obj noid by (simp add: revparse_single_def wip_name_not_reserved)
  have revm: "revparse_single s m = Inr (m, mc)"
    using mobj res by (simp add: revparse_single_def)
  define s3 where "s3 = s\<lparr>index := idx, workdir := wd, merge_head := Some m,
                           merge_msg := Some (''Absorbed '' @ m)\<rparr>"
  have sm: "start_merge be m s = (Inr (), s3)"
    using utd non nrm mrg by (simp add: start_merge_cases [OF revm] s3_def)
  have par: "commit_parent (new, \<lparr>parents = [p, m], message = ''WIP'' @ [newline] @ mm, tree = t\<rparr>) 1 s
               = (Inr (m, mc), s)"
    using mobj by (simp add: commit_parent_def parentcount_def lookup_commit_def)
  have rev3: "revparse_single s3 (name @ WIPString)
               = Inr (new, \<lparr>parents = [p, m], message = ''WIP'' @ [newline] @ mm, tree = t\<rparr>)"
    using wip obj noid by (simp add: revparse_single_def wip_name_not_reserved s3_def)
  have wip3: "map_of (branches s3) (name @ WIPString) = Some new"
    using wip by (simp add: s3_def)
  have "restore_wip be s =
          (Inr (),
           s3\<lparr>branches := AList.delete (name @ WIPString) (branches s3),
               index := (fst (be_checkout_tree be t (cleanup_conflicts idx, wd)))
                          \<lparr>conflicts :=
                             conflicts (fst (be_checkout_tree be t (cleanup_conflicts idx, wd)))
                             @ conflicts idx\<rparr>,
               workdir := snd (be_checkout_tree be t (cleanup_conflicts idx, wd)),
               merge_msg := Some mm\<rparr>)"
    using cur wip rev par sm
    apply (simp add: restore_wip_def current_branch_name_def branch_exists_def lookup_branch_def
        get_commit_def parentcount_def monad_defs wip_message_split [OF len] set_merge_message_def
        get_conflicts_eq Let_def)
    apply (simp add: checkout_def checkout_tree_def delete_branch_def lookup_branch_def
        branch_delete_def monad_defs get_commit_def split_beta foldl_add_conflict s3_def
        revparse_single_def wip_name_not_reserved noid wip obj)
    done
  then show ?thesis
    by (simp add: s3_def)
qed

text \<open>
  With the head still on the WIP branch, where \<open>save_wip\<close> leaves it, \<open>restore_wip\<close>
  looks for the WIP branch of the WIP branch and finds no stash.
\<close>

lemma restore_wip_head_on_wip_branch:
  assumes dirty: "has_uncommitted_changes be st \<or> merge_ongoing st"
      and ok: "fst (save_wip be st) = Inr ()"
      and cur: "first_head_branch st (branches st) = Some name"
      and free: "map_of (branches st) (name @ WIPString @ WIPString) = None"
  shows "restore_wip be (snd (save_wip be st)) = (Inr (), snd (save_wip be st))
       \<and> head (snd (save_wip be st)) = Attached (name @ WIPString)
       \<and> map_of (branches (snd (save_wip be st))) (name @ WIPString) \<noteq> None
       \<and> workdir (snd (save_wip be st)) = workdir st
       \<and> index (snd (save_wip be st)) = be_add_all be (workdir st) (index st)
       \<and> (if merge_ongoing st
          then merge_head (snd (save_wip be st)) = None \<and> merge_msg (snd (save_wip be st)) = None
          else merge_head (snd (save_wip be st)) = merge_head st
             \<and> merge_msg (snd (save_wip be st)) = merge_msg st)"
proof -
  from dirty ok obtain name' h hc t where
    cur': "first_head_branch st (branches st) = Some name'"
    and hd: "revparse_single st ''HEAD'' = Inr (h, hc)"
    and wt: "be_write_tree be (be_add_all be (workdir st) (index st)) = Some t"
    by (rule save_wip_success)
  define st1 where "st1 = snd (save_wip be st)"
  have fields: "head st1 = Attached (name @ WIPString)
    \<and> map_of (branches st1) (name @ WIPString) \<noteq> None
    \<and> map_of (branches st1) (name @ WIPString @ WIPString) = None
    \<and> workdir st1 = workdir st
    \<and> index st1 = be_add_all be (workdir st) (index st)
    \<and> (if merge_ongoing st
       then merge_head st1 = None \<and> merge_msg st1 = None
       else merge_head st1 = merge_head st \<and> merge_msg st1 = merge_msg st)"
  proof (cases "merge_ongoing st")
    case True
    then obtain m where mh: "merge_head st = Some m"
      by (auto simp: merge_ongoing_iff)
    show ?thesis
      using True free WIPString_not_Nil
      by (simp add: st1_def save_wip_merging [OF True mh cur hd wt] update_conv' delete_conv')
  next
    case False
    with dirty have d: "has_uncommitted_changes be st" by simp
    show ?thesis
      using False free WIPString_not_Nil
      by (simp add: st1_def save_wip_plain [OF d False cur hd wt] update_conv' delete_conv')
  qed
  then have "name @ WIPString \<in> fst ` set (branches st1)"
    by (metis map_of_eq_None_iff)
  with fields have "first_head_branch st1 (branches st1) = Some (name @ WIPString)"
    by (simp add: first_head_branch_attached)
  with fields have "restore_wip be st1 = (Inr (), st1)"
    by (simp add: restore_wip_def current_branch_name_def bindM_def returnM_def
        branch_exists_def lookup_branch_def)
  with fields show ?thesis
    unfolding st1_def by simp
qed

text \<open>
  C1, as the code has it: \<open>restore_wip\<close> restores the stash of the branch the head is on,
  and \<open>save_wip\<close> leaves the head on the WIP branch, so the round trip is \<open>save_wip\<close>,
  the head moved back to the saved branch (the \<open>move_head\<close> that \<open>switch_branch\<close> runs
  before \<open>restore_wip\<close>), \<open>restore_wip\<close>.  Whenever \<open>save_wip\<close> has something to save
  and returns normally, that sequence returns normally and restores the head, the
  branches (a stale WIP branch of that branch is deleted, and no WIP branch exists for it
  afterwards), the merge head and the text of the merge message, and the working
  directory.  When a merge was in progress this needs the backend to report a normal merge
  for the stashed merge head and to redo the merge; the working directory is restored
  whenever the backend's forced checkout of the WIP commit's tree reproduces it.  The
  index is not restored: it is what that checkout leaves, with the conflicts of the redone
  merge re-inserted.  The WIP branch name is assumed not to be an object id, the merge
  head not one of the reserved names, and the merge message of a length a \<open>size_t\<close>
  can hold.
\<close>

theorem save_wip_move_head_restore_wip:
  fixes be :: backend and st :: repo and name :: string
  defines "saved \<equiv> snd (thenM (save_wip be) (move_head name) st)"
      and "run \<equiv> thenM (save_wip be) (thenM (move_head name) (restore_wip be)) st"
  assumes dirty: "has_uncommitted_changes be st \<or> merge_ongoing st"
      and ok: "fst (save_wip be st) = Inr ()"
      and cur: "first_head_branch st (branches st) = Some name"
      and noid: "commits (snd (save_wip be st)) (name @ WIPString) = None"
      and wt: "be_write_tree be (be_add_all be (workdir st) (index st)) = Some t"
      and plain: "\<not> merge_ongoing st \<Longrightarrow>
                 snd (be_checkout_tree be t (be_add_all be (workdir st) (index st), workdir st))
                   = workdir st"
      and mg: "merge_ongoing st \<Longrightarrow>
                 merge_head st = Some m \<and> m \<noteq> ''HEAD'' \<and> m \<noteq> ''MERGE_HEAD''
               \<and> length (get_merge_message st) < 2 ^ 64
               \<and> be_merge_analysis be saved m AND GIT_MERGE_ANALYSIS_UP_TO_DATE be = 0
               \<and> be_merge_analysis be saved m AND GIT_MERGE_ANALYSIS_NONE be = 0
               \<and> be_merge_analysis be saved m AND GIT_MERGE_ANALYSIS_NORMAL be \<noteq> 0
               \<and> be_merge be saved m = Some (idx, wd)
               \<and> snd (be_checkout_tree be t (cleanup_conflicts idx, wd)) = workdir st"
  shows "fst run = Inr ()
       \<and> workdir (snd run) = workdir st
       \<and> head (snd run) = head st
       \<and> branches (snd run) = AList.delete (name @ WIPString) (branches st)
       \<and> map_of (branches (snd run)) (name @ WIPString) = None
       \<and> merge_head (snd run) = merge_head st
       \<and> get_merge_message (snd run) = get_merge_message st
       \<and> index (snd run) =
           (if merge_ongoing st
            then (fst (be_checkout_tree be t (cleanup_conflicts idx, wd)))
                   \<lparr>conflicts :=
                      conflicts (fst (be_checkout_tree be t (cleanup_conflicts idx, wd)))
                      @ conflicts idx\<rparr>
            else fst (be_checkout_tree be t (be_add_all be (workdir st) (index st), workdir st)))"
proof -
  from dirty ok obtain name' h hc t' where
    hd: "revparse_single st ''HEAD'' = Inr (h, hc)"
    by (rule save_wip_success)
  from first_head_branch_Some [OF cur]
  have att: "head st = Attached name" by simp
  from hd att have tgt: "map_of (branches st) name = Some h"
    by (simp add: revparse_HEAD head_target_def)
  have ne: "name \<noteq> name @ WIPString"
    using WIPString_not_Nil by simp
  show ?thesis
  proof (cases "merge_ongoing st")
    case False
    with dirty have d: "has_uncommitted_changes be st" by simp
    define w where "w = \<lparr>parents = [h], message = ''WIP'', tree = t\<rparr>"
    define st1 where "st1 = snd (save_wip be st)"
    have sv: "save_wip be st = (Inr (), st1)"
      "commits st1 = (commits st)(be_hash be w \<mapsto> w)"
      "branches st1 = AList.update (name @ WIPString) (be_hash be w)
                        (AList.delete (name @ WIPString) (branches st))"
      "index st1 = be_add_all be (workdir st) (index st)"
      "workdir st1 = workdir st" "merge_head st1 = merge_head st" "merge_msg st1 = merge_msg st"
      by (simp_all add: st1_def save_wip_plain [OF d False cur hd wt] w_def)
    define s where "s = st1\<lparr>head := Attached name\<rparr>"
    have mv: "move_head name st1 = (Inr (), s)"
      using tgt ne by (simp add: move_head_def lookup_branch_def set_head_def monad_defs sv(3)
          update_conv' delete_conv' s_def)
    have rs: "restore_wip be s =
           (Inr (), s\<lparr>branches := AList.delete (name @ WIPString) (branches s),
                       index := fst (be_checkout_tree be t (index s, workdir s)),
                       workdir := snd (be_checkout_tree be t (index s, workdir s))\<rparr>)"
    proof (rule restore_wip_plain)
      show "head s = Attached name" by (simp add: s_def)
      show "map_of (branches s) name = Some h"
        using tgt ne by (simp add: s_def sv(3) update_conv' delete_conv')
      show "map_of (branches s) (name @ WIPString) = Some (be_hash be w)"
        by (simp add: s_def sv(3) update_conv')
      show "commits s (be_hash be w) = Some \<lparr>parents = [h], message = ''WIP'', tree = t\<rparr>"
        by (simp add: s_def sv(2) w_def)
      show "commits s (name @ WIPString) = None"
        using noid by (simp add: s_def st1_def)
    qed
    have "run = restore_wip be s"
      by (simp add: run_def monad_defs sv(1) mv)
    then have fin: "fst run = Inr ()"
      "snd run = s\<lparr>branches := AList.delete (name @ WIPString) (branches s),
                       index := fst (be_checkout_tree be t (index s, workdir s)),
                       workdir := snd (be_checkout_tree be t (index s, workdir s))\<rparr>"
      by (simp_all add: rs)
    show ?thesis
      using False plain [OF False] att
      by (simp add: fin s_def sv delete_conv' delete_update_same delete_idem
          get_merge_message_def)
  next
    case True
    from mg [OF True] have mh: "merge_head st = Some m"
      and res: "m \<noteq> ''HEAD''" "m \<noteq> ''MERGE_HEAD''"
      and len: "length (get_merge_message st) < 2 ^ 64"
      and utd: "be_merge_analysis be saved m AND GIT_MERGE_ANALYSIS_UP_TO_DATE be = 0"
      and non: "be_merge_analysis be saved m AND GIT_MERGE_ANALYSIS_NONE be = 0"
      and nrm: "be_merge_analysis be saved m AND GIT_MERGE_ANALYSIS_NORMAL be \<noteq> 0"
      and mrg: "be_merge be saved m = Some (idx, wd)"
      and co: "snd (be_checkout_tree be t (cleanup_conflicts idx, wd)) = workdir st"
      by simp_all
    from True mh obtain mc where mc: "commits st m = Some mc"
      by (auto simp: merge_ongoing_iff)
    define w where "w = \<lparr>parents = [h, m],
                          message = ''WIP'' @ [newline] @ get_merge_message st, tree = t\<rparr>"
    define st1 where "st1 = snd (save_wip be st)"
    have sv: "save_wip be st = (Inr (), st1)"
      "commits st1 = (commits st)(be_hash be w \<mapsto> w)"
      "branches st1 = AList.update (name @ WIPString) (be_hash be w)
                        (AList.delete (name @ WIPString) (branches st))"
      "index st1 = be_add_all be (workdir st) (index st)"
      "workdir st1 = workdir st" "merge_head st1 = None" "merge_msg st1 = None"
      by (simp_all add: st1_def save_wip_merging [OF True mh cur hd wt] w_def)
    define s where "s = st1\<lparr>head := Attached name\<rparr>"
    have mv: "move_head name st1 = (Inr (), s)"
      using tgt ne by (simp add: move_head_def lookup_branch_def set_head_def monad_defs sv(3)
          update_conv' delete_conv' s_def)
    have saved: "saved = s"
      by (simp add: saved_def monad_defs sv(1) mv)
    obtain mc' where mc': "commits s m = Some mc'"
      using mc by (cases "be_hash be w = m") (simp_all add: s_def sv(2))
    have rs: "restore_wip be s =
           (Inr (),
            s\<lparr>branches := AList.delete (name @ WIPString) (branches s),
               index := (fst (be_checkout_tree be t (cleanup_conflicts idx, wd)))
                          \<lparr>conflicts :=
                             conflicts (fst (be_checkout_tree be t (cleanup_conflicts idx, wd)))
                             @ conflicts idx\<rparr>,
               workdir := snd (be_checkout_tree be t (cleanup_conflicts idx, wd)),
               merge_head := Some m,
               merge_msg := Some (get_merge_message st)\<rparr>)"
    proof (rule restore_wip_merging [where h = h and p = h and mc = mc'])
      show "head s = Attached name" by (simp add: s_def)
      show "map_of (branches s) name = Some h"
        using tgt ne by (simp add: s_def sv(3) update_conv' delete_conv')
      show "map_of (branches s) (name @ WIPString) = Some (be_hash be w)"
        by (simp add: s_def sv(3) update_conv')
      show "commits s (be_hash be w)
              = Some \<lparr>parents = [h, m],
                       message = ''WIP'' @ [newline] @ get_merge_message st, tree = t\<rparr>"
        by (simp add: s_def sv(2) w_def)
      show "commits s (name @ WIPString) = None"
        using noid by (simp add: s_def st1_def)
      show "commits s m = Some mc'" by (rule mc')
      show "m \<noteq> ''HEAD''" "m \<noteq> ''MERGE_HEAD''" by (rule res)+
      show "length (get_merge_message st) < 2 ^ 64" by (rule len)
      show "be_merge_analysis be s m AND GIT_MERGE_ANALYSIS_UP_TO_DATE be = 0"
        using utd by (simp add: saved)
      show "be_merge_analysis be s m AND GIT_MERGE_ANALYSIS_NONE be = 0"
        using non by (simp add: saved)
      show "be_merge_analysis be s m AND GIT_MERGE_ANALYSIS_NORMAL be \<noteq> 0"
        using nrm by (simp add: saved)
      show "be_merge be s m = Some (idx, wd)"
        using mrg by (simp add: saved)
    qed
    have "run = restore_wip be s"
      by (simp add: run_def monad_defs sv(1) mv)
    then have fin: "fst run = Inr ()"
      "snd run = s\<lparr>branches := AList.delete (name @ WIPString) (branches s),
               index := (fst (be_checkout_tree be t (cleanup_conflicts idx, wd)))
                          \<lparr>conflicts :=
                             conflicts (fst (be_checkout_tree be t (cleanup_conflicts idx, wd)))
                             @ conflicts idx\<rparr>,
               workdir := snd (be_checkout_tree be t (cleanup_conflicts idx, wd)),
               merge_head := Some m,
               merge_msg := Some (get_merge_message st)\<rparr>"
      by (simp_all add: rs)
    show ?thesis
      using True co att mh
      by (simp add: fin s_def sv delete_conv' delete_update_same delete_idem
          get_merge_message_def)
  qed
qed


theorem save_wip_move_head_restore_wip_witness:
  "fst (thenM (save_wip demo_backend) (thenM (move_head ''main'') (restore_wip demo_backend))
          dirty_repo) = Inr ()
   \<and> workdir (snd (thenM (save_wip demo_backend)
                      (thenM (move_head ''main'') (restore_wip demo_backend)) dirty_repo))
       = [(''a.txt'', ''edited'')]
   \<and> branches (snd (thenM (save_wip demo_backend)
                       (thenM (move_head ''main'') (restore_wip demo_backend)) dirty_repo))
       = [(''main'', ''c1''), (''feature'', ''c2'')]
   \<and> fst (thenM (save_wip demo_backend) (thenM (move_head ''main'') (restore_wip demo_backend))
          merging_repo) = Inr ()
   \<and> workdir (snd (thenM (save_wip demo_backend)
                      (thenM (move_head ''main'') (restore_wip demo_backend)) merging_repo))
       = [(''a.txt'', ''one''), (''b.txt'', ''two'')]
   \<and> head (snd (thenM (save_wip demo_backend)
                   (thenM (move_head ''main'') (restore_wip demo_backend)) merging_repo))
       = Attached ''main''
   \<and> branches (snd (thenM (save_wip demo_backend)
                       (thenM (move_head ''main'') (restore_wip demo_backend)) merging_repo))
       = [(''main'', ''c1''), (''feature'', ''c2'')]
   \<and> merge_head (snd (thenM (save_wip demo_backend)
                         (thenM (move_head ''main'') (restore_wip demo_backend)) merging_repo))
       = Some ''c2''
   \<and> get_merge_message (snd (thenM (save_wip demo_backend)
                         (thenM (move_head ''main'') (restore_wip demo_backend)) merging_repo))
       = ''Absorbed feature''"
proof -
  have d1: "has_uncommitted_changes demo_backend dirty_repo \<or> merge_ongoing dirty_repo"
    and d2: "fst (save_wip demo_backend dirty_repo) = Inr ()"
    and d3: "first_head_branch dirty_repo (branches dirty_repo) = Some ''main''"
    and d4: "commits (snd (save_wip demo_backend dirty_repo)) (''main'' @ WIPString) = None"
    and d5: "be_write_tree demo_backend
               (be_add_all demo_backend (workdir dirty_repo) (index dirty_repo))
             = Some [(''a.txt'', ''edited'')]"
    and d6: "\<not> merge_ongoing dirty_repo \<Longrightarrow>
             snd (be_checkout_tree demo_backend [(''a.txt'', ''edited'')]
                    (be_add_all demo_backend (workdir dirty_repo) (index dirty_repo),
                     workdir dirty_repo)) = workdir dirty_repo"
    and d7: "\<not> merge_ongoing dirty_repo"
    by (simp_all add: op_defs store_defs demo_defs monad_defs)
  have m1: "has_uncommitted_changes demo_backend merging_repo \<or> merge_ongoing merging_repo"
    and m2: "fst (save_wip demo_backend merging_repo) = Inr ()"
    and m3: "first_head_branch merging_repo (branches merging_repo) = Some ''main''"
    and m4: "commits (snd (save_wip demo_backend merging_repo)) (''main'' @ WIPString) = None"
    and m5: "be_write_tree demo_backend
               (be_add_all demo_backend (workdir merging_repo) (index merging_repo))
             = Some [(''a.txt'', ''one''), (''b.txt'', ''two'')]"
    and m6: "merge_ongoing merging_repo"
    by (simp_all add: op_defs store_defs demo_defs monad_defs)
  have m7: "merge_head merging_repo = Some ''c2'' \<and> ''c2'' \<noteq> ''HEAD'' \<and> ''c2'' \<noteq> ''MERGE_HEAD''
      \<and> length (get_merge_message merging_repo) < 2 ^ 64
      \<and> be_merge_analysis demo_backend
           (snd (thenM (save_wip demo_backend) (move_head ''main'') merging_repo)) ''c2''
           AND GIT_MERGE_ANALYSIS_UP_TO_DATE demo_backend = 0
      \<and> be_merge_analysis demo_backend
           (snd (thenM (save_wip demo_backend) (move_head ''main'') merging_repo)) ''c2''
           AND GIT_MERGE_ANALYSIS_NONE demo_backend = 0
      \<and> be_merge_analysis demo_backend
           (snd (thenM (save_wip demo_backend) (move_head ''main'') merging_repo)) ''c2''
           AND GIT_MERGE_ANALYSIS_NORMAL demo_backend \<noteq> 0
      \<and> be_merge demo_backend
           (snd (thenM (save_wip demo_backend) (move_head ''main'') merging_repo)) ''c2''
         = Some (\<lparr>entries = [(''a.txt'', ''one''), (''b.txt'', ''two''), (''b.txt'', ''two'')],
                    conflicts = []\<rparr>,
                 [(''a.txt'', ''one''), (''b.txt'', ''two''), (''b.txt'', ''two'')])
      \<and> snd (be_checkout_tree demo_backend [(''a.txt'', ''one''), (''b.txt'', ''two'')]
               (cleanup_conflicts
                  \<lparr>entries = [(''a.txt'', ''one''), (''b.txt'', ''two''), (''b.txt'', ''two'')],
                     conflicts = []\<rparr>,
                [(''a.txt'', ''one''), (''b.txt'', ''two''), (''b.txt'', ''two'')]))
         = workdir merging_repo"
    by (simp add: op_defs store_defs demo_defs monad_defs)
  have ev: "workdir dirty_repo = [(''a.txt'', ''edited'')]"
    "branches dirty_repo = [(''main'', ''c1''), (''feature'', ''c2'')]"
    "workdir merging_repo = [(''a.txt'', ''one''), (''b.txt'', ''two'')]"
    "branches merging_repo = [(''main'', ''c1''), (''feature'', ''c2'')]"
    "head merging_repo = Attached ''main''"
    "merge_head merging_repo = Some ''c2''"
    "get_merge_message merging_repo = ''Absorbed feature''"
    by (simp_all add: op_defs demo_defs)
  from save_wip_move_head_restore_wip [OF d1 d2 d3 d4 d5 d6, of _ _ _] d7
       save_wip_move_head_restore_wip [OF m1 m2 m3 m4 m5 _ m7] m6
  show ?thesis
    by (simp add: ev WIPString_def)
qed

text \<open>
  On the repository with an edited file, the WIP branch \<open>main#wip\<close> still exists after
  \<open>save_wip\<close> and \<open>restore_wip\<close> and the index is not the one from before, also when the
  head is moved back in between; on the repository in the middle of a merge, the merge
  head is not restored by \<open>restore_wip\<close> run immediately after \<open>save_wip\<close>.
\<close>

theorem save_wip_restore_wip_counterexample:
  "has_uncommitted_changes demo_backend dirty_repo
   \<and> first_head_branch dirty_repo (branches dirty_repo) = Some ''main''
   \<and> fst (save_wip demo_backend dirty_repo) = Inr ()
   \<and> fst (restore_wip demo_backend (snd (save_wip demo_backend dirty_repo))) = Inr ()
   \<and> map_of (branches (snd (restore_wip demo_backend (snd (save_wip demo_backend dirty_repo)))))
        (''main'' @ WIPString) = Some ''id-WIP''
   \<and> index (snd (restore_wip demo_backend (snd (save_wip demo_backend dirty_repo))))
        \<noteq> index dirty_repo
   \<and> index (snd (thenM (save_wip demo_backend)
                     (thenM (move_head ''main'') (restore_wip demo_backend)) dirty_repo))
        \<noteq> index dirty_repo
   \<and> merge_ongoing merging_repo
   \<and> fst (save_wip demo_backend merging_repo) = Inr ()
   \<and> fst (restore_wip demo_backend (snd (save_wip demo_backend merging_repo))) = Inr ()
   \<and> merge_head (snd (restore_wip demo_backend (snd (save_wip demo_backend merging_repo))))
        \<noteq> merge_head merging_repo"
  by (simp add: op_defs store_defs demo_defs monad_defs)

section \<open>Rejected names\<close>

text \<open>
  C9: for every name that ends with the WIP suffix, \<open>absorb\<close> and \<open>switch_branch\<close> fail
  with \<open>UnsupportedOperation\<close> and leave the state as it was, whether or not a branch of
  that name exists; for a name without the suffix that is not a local branch,
  \<open>switch_branch\<close> fails with \<open>BranchNotFound\<close> and leaves the state as it was.
\<close>

theorem wip_names_rejected:
  "(suffix WIPString name \<longrightarrow>
      absorb be name st = (Inl (UnsupportedOperation ''Can't absorb WIP branch.''), st)
    \<and> switch_branch be name st
        = (Inl (UnsupportedOperation ''Can't switch to WIP branch.''), st))
   \<and> (\<not> suffix WIPString name \<and> name \<notin> fst ` set (branches st) \<longrightarrow>
        switch_branch be name st = (Inl BranchNotFound, st))"
proof -
  have "name \<notin> fst ` set (branches st) \<Longrightarrow> \<not> branch_exists st name"
    by (simp add: branch_exists_def lookup_branch_def map_of_eq_None_iff [THEN iffD2])
  then show ?thesis
    by (auto simp: absorb_def switch_branch_def throwM_def has_suffix_iff)
qed

theorem wip_names_rejected_witness:
  "suffix WIPString ''x#wip'' \<and> ''x#wip'' \<notin> fst ` set (branches clean_repo)
   \<and> absorb demo_backend ''x#wip'' clean_repo
       = (Inl (UnsupportedOperation ''Can't absorb WIP branch.''), clean_repo)
   \<and> switch_branch demo_backend ''x#wip'' clean_repo
       = (Inl (UnsupportedOperation ''Can't switch to WIP branch.''), clean_repo)
   \<and> \<not> suffix WIPString ''nope'' \<and> ''nope'' \<notin> fst ` set (branches clean_repo)
   \<and> switch_branch demo_backend ''nope'' clean_repo = (Inl BranchNotFound, clean_repo)"
proof -
  have h1: "suffix WIPString ''x#wip''"
    by (simp add: has_suffix_iff [symmetric] has_suffix_def str_compare_def WIPString_def)
  have h2: "\<not> suffix WIPString ''nope''"
    by (simp add: has_suffix_iff [symmetric] has_suffix_def str_compare_def WIPString_def)
  have h3: "''x#wip'' \<notin> fst ` set (branches clean_repo)" "''nope'' \<notin> fst ` set (branches clean_repo)"
    by (simp_all add: clean_repo_def)
  from wip_names_rejected [of "''x#wip''" demo_backend clean_repo]
       wip_names_rejected [of "''nope''" demo_backend clean_repo] h1 h2 h3
  show ?thesis by simp
qed

section \<open>Merging\<close>





lemma set_head_target_fields:
  "workdir (set_head_target c st) = workdir st"
  "index (set_head_target c st) = index st"
  "commits (set_head_target c st) = commits st"
  "merge_head (set_head_target c st) = merge_head st"
  "merge_msg (set_head_target c st) = merge_msg st"
  "head_target (set_head_target c st) = Some c"
  by (simp_all add: set_head_target_def head_target_def update_conv' split: head_ref.splits)

lemma set_head_target_twice:
  "set_head_target c (set_head_target d st) = set_head_target c st"
  by (simp add: set_head_target_def split: head_ref.splits)

lemma merge_ongoing_cleared: "merge_head st = None \<Longrightarrow> \<not> merge_ongoing st"
  by (simp add: merge_ongoing_iff)

lemma resolve_result:
  assumes mg: "merge_ongoing st"
      and mh: "merge_head st = Some mh"
      and res: "mh \<noteq> ''HEAD''" "mh \<noteq> ''MERGE_HEAD''"
      and hd: "head_target st = Some h" "commits st h = Some hc"
      and wt: "be_write_tree be (be_add_all be (workdir st) (cleanup_conflicts (index st))) = Some t"
  shows "resolve be st =
           (Inr (),
            set_head_target
              (be_hash be \<lparr>parents = [h, mh], message = get_merge_message st, tree = t\<rparr>)
              (st\<lparr>merge_head := None, merge_msg := None,
                  index := be_add_all be (workdir st) (cleanup_conflicts (index st)),
                  commits := (commits st)
                    (be_hash be \<lparr>parents = [h, mh], message = get_merge_message st, tree = t\<rparr>
                       \<mapsto> \<lparr>parents = [h, mh], message = get_merge_message st, tree = t\<rparr>)\<rparr>))"
proof -
  from mg mh obtain mc where mc: "commits st mh = Some mc"
    by (auto simp: merge_ongoing_iff)
  define s where "s = st\<lparr>merge_head := None, merge_msg := None,
                         index := cleanup_conflicts (index st)\<rparr>"
  have id: "merge_head_id st = (Inr mh, st)"
    using mh mc by (simp add: merge_head_id_def get_commit_def monad_defs revparse_single_def)
  have hd_s: "revparse_single s ''HEAD'' = Inr (h, hc)"
    using hd by (simp add: revparse_HEAD s_def head_target_def split: head_ref.splits)
  have mh_s: "revparse_single s mh = Inr (mh, mc)"
    using res mc by (simp add: revparse_single_def s_def)
  have wt_s: "be_write_tree be (be_add_all be (workdir s) (index s)) = Some t"
    using wt by (simp add: s_def)
  have "resolve be st = commit_revs be (get_merge_message st) [''HEAD'', mh] s"
    using mg by (simp add: resolve_def id monad_defs cleanup_state_def s_def)
  also have "\<dots> = commit be (get_merge_message st) [(h, hc), (mh, mc)] s"
    by (simp add: commit_revs_def hd_s mh_s)
  finally show ?thesis
    by (simp add: commit_result [OF wt_s]) (simp add: s_def)
qed

text \<open>
  C6: without a merge in progress \<open>resolve\<close> fails with \<open>NotMerging\<close> and leaves the
  state as it was.  With a merge in progress (the merge head an object id, not one of the
  reserved names), a head that resolves and a tree that can be written, it returns
  normally; the new head commit has the parents current head and merge head, in this
  order, and the stored merge message; the index was staged after its conflicts were
  cleared; merge head and merge message are gone and no merge is in progress.
\<close>

theorem resolve_spec:
  "(\<not> merge_ongoing st \<longrightarrow> resolve be st = (Inl NotMerging, st))
   \<and> (merge_ongoing st \<and> merge_head st = Some mh \<and> mh \<noteq> ''HEAD'' \<and> mh \<noteq> ''MERGE_HEAD''
      \<and> head_target st = Some h \<and> commits st h = Some hc
      \<and> be_write_tree be (be_add_all be (workdir st) (cleanup_conflicts (index st))) = Some t \<longrightarrow>
        fst (resolve be st) = Inr ()
      \<and> commits (snd (resolve be st))
            (be_hash be \<lparr>parents = [h, mh], message = get_merge_message st, tree = t\<rparr>)
          = Some \<lparr>parents = [h, mh], message = get_merge_message st, tree = t\<rparr>
      \<and> head_target (snd (resolve be st))
          = Some (be_hash be \<lparr>parents = [h, mh], message = get_merge_message st, tree = t\<rparr>)
      \<and> index (snd (resolve be st)) = be_add_all be (workdir st) (cleanup_conflicts (index st))
      \<and> merge_head (snd (resolve be st)) = None
      \<and> merge_msg (snd (resolve be st)) = None
      \<and> \<not> merge_ongoing (snd (resolve be st)))"
  by (auto simp: resolve_result set_head_target_fields merge_ongoing_cleared)
     (simp add: resolve_def throwM_def)


theorem resolve_spec_witness:
  "\<not> merge_ongoing clean_repo
   \<and> resolve demo_backend clean_repo = (Inl NotMerging, clean_repo)
   \<and> merge_ongoing merging_repo \<and> merge_head merging_repo = Some ''c2''
   \<and> head_target merging_repo = Some ''c1''
   \<and> fst (resolve demo_backend merging_repo) = Inr ()
   \<and> commits (snd (resolve demo_backend merging_repo)) ''id-Absorbed feature''
       = Some \<lparr>parents = [''c1'', ''c2''], message = ''Absorbed feature'',
                tree = [(''a.txt'', ''one''), (''b.txt'', ''two'')]\<rparr>
   \<and> head_target (snd (resolve demo_backend merging_repo)) = Some ''id-Absorbed feature''
   \<and> \<not> merge_ongoing (snd (resolve demo_backend merging_repo))"
proof -
  have h1: "\<not> merge_ongoing clean_repo"
    by (simp add: op_defs store_defs demo_defs)
  have h2: "merge_ongoing merging_repo" "merge_head merging_repo = Some ''c2''"
    "''c2'' \<noteq> ''HEAD''" "''c2'' \<noteq> ''MERGE_HEAD''"
    "head_target merging_repo = Some ''c1''"
    "commits merging_repo ''c1''
       = Some \<lparr>parents = [''c0''], message = ''first'', tree = [(''a.txt'', ''one'')]\<rparr>"
    "be_write_tree demo_backend
       (be_add_all demo_backend (workdir merging_repo) (cleanup_conflicts (index merging_repo)))
       = Some [(''a.txt'', ''one''), (''b.txt'', ''two'')]"
    by (simp_all add: op_defs store_defs demo_defs)
  have ev: "get_merge_message merging_repo = ''Absorbed feature''"
    "be_hash demo_backend = (\<lambda>c. ''id-'' @ message c)"
    by (simp_all add: op_defs demo_defs)
  from resolve_spec [of clean_repo demo_backend]
       resolve_spec [of merging_repo demo_backend "''c2''" "''c1''" _
                        "[(''a.txt'', ''one''), (''b.txt'', ''two'')]"] h1 h2
  show ?thesis by (simp add: ev)
qed

section \<open>History\<close>

lemma lookup_all_ok:
  "\<forall>p \<in> set ps. commits st p \<noteq> None \<Longrightarrow>
     \<exists>objs. lookup_all st ps = Inr objs \<and> map fst objs = ps"
  by (induction ps) (auto simp: lookup_commit_def)

lemma delete_last_commit_soft:
  assumes hd: "head_target st = Some h" "commits st h = Some hc"
      and ps: "parents hc \<noteq> []" "\<forall>p \<in> set (parents hc). commits st p \<noteq> None"
  shows "delete_last_commit be False st = (Inr (), set_head_target (hd (parents hc)) st)"
proof -
  from ps obtain p0 rest where p: "parents hc = p0 # rest"
    by (cases "parents hc") auto
  with ps obtain obj0 where "commits st p0 = Some obj0"
    by auto
  with hd p show ?thesis
    by (simp add: delete_last_commit_def get_commit_def monad_defs revparse_single_def
        parentcount_def commit_parent_def lookup_commit_def reset_to_commit_def)
qed

lemma patch_result:
  assumes nm: "\<not> merge_ongoing st"
      and hd: "head_target st = Some h" "commits st h = Some hc"
      and ps: "parents hc \<noteq> []" "\<forall>p \<in> set (parents hc). commits st p \<noteq> None"
      and wt: "be_write_tree be (be_add_all be (workdir st) (index st)) = Some t"
  shows "patch be msg st =
           (Inr (),
            set_head_target (be_hash be \<lparr>parents = parents hc, message = msg, tree = t\<rparr>)
              (st\<lparr>index := be_add_all be (workdir st) (index st),
                  commits := (commits st)
                    (be_hash be \<lparr>parents = parents hc, message = msg, tree = t\<rparr>
                       \<mapsto> \<lparr>parents = parents hc, message = msg, tree = t\<rparr>)\<rparr>))"
proof -
  from lookup_all_ok [OF ps(2)] obtain objs where
    objs: "lookup_all st (parents hc) = Inr objs" "map fst objs = parents hc"
    by blast
  define s where "s = set_head_target (hd (parents hc)) st"
  have del: "delete_last_commit be False st = (Inr (), s)"
    unfolding s_def by (rule delete_last_commit_soft [OF hd ps])
  have wt_s: "be_write_tree be (be_add_all be (workdir s) (index s)) = Some t"
    using wt by (simp add: s_def set_head_target_fields)
  have "patch be msg st = commit be msg objs s"
    using nm hd objs(1) del
    by (simp add: patch_def assert_merging_def get_commit_def commit_parents_def monad_defs
        revparse_single_def)
  then show ?thesis
    by (simp add: commit_result [OF wt_s] objs(2))
       (simp add: s_def set_head_target_def split: head_ref.splits)
qed

text \<open>
  C8: \<open>patch\<close> fails with \<open>CurrentlyMerging\<close> while a merge is in progress; otherwise,
  on a head commit without parents, it fails with \<open>UnsupportedOperation\<close>; in both cases
  the state stays as it was.  Otherwise (the parents are in the store and the tree can be
  written) the soft reset in between leaves working directory and index untouched, and
  \<open>patch\<close> returns normally with a new head commit that has the parents of the replaced
  commit, the given message and the tree staged from the working directory, which itself
  is unchanged.
\<close>

theorem patch_spec:
  "(merge_ongoing st \<longrightarrow> patch be msg st = (Inl CurrentlyMerging, st))
   \<and> (\<not> merge_ongoing st \<and> head_target st = Some h \<and> commits st h = Some hc
      \<and> parents hc = [] \<longrightarrow>
        patch be msg st = (Inl (UnsupportedOperation ''Can't delete initial commit.''), st))
   \<and> (\<not> merge_ongoing st \<and> head_target st = Some h \<and> commits st h = Some hc
      \<and> parents hc \<noteq> [] \<and> (\<forall>p \<in> set (parents hc). commits st p \<noteq> None)
      \<and> be_write_tree be (be_add_all be (workdir st) (index st)) = Some t \<longrightarrow>
        fst (delete_last_commit be False st) = Inr ()
      \<and> workdir (snd (delete_last_commit be False st)) = workdir st
      \<and> index (snd (delete_last_commit be False st)) = index st
      \<and> fst (patch be msg st) = Inr ()
      \<and> commits (snd (patch be msg st))
            (be_hash be \<lparr>parents = parents hc, message = msg, tree = t\<rparr>)
          = Some \<lparr>parents = parents hc, message = msg, tree = t\<rparr>
      \<and> head_target (snd (patch be msg st))
          = Some (be_hash be \<lparr>parents = parents hc, message = msg, tree = t\<rparr>)
      \<and> workdir (snd (patch be msg st)) = workdir st)"
proof (intro conjI impI)
  assume "merge_ongoing st"
  then show "patch be msg st = (Inl CurrentlyMerging, st)"
    by (simp add: patch_def assert_merging_def monad_defs)
next
  assume "\<not> merge_ongoing st \<and> head_target st = Some h \<and> commits st h = Some hc
      \<and> parents hc = []"
  then show "patch be msg st = (Inl (UnsupportedOperation ''Can't delete initial commit.''), st)"
    by (simp add: patch_def assert_merging_def get_commit_def commit_parents_def monad_defs
        revparse_single_def delete_last_commit_def parentcount_def)
next
  assume a: "\<not> merge_ongoing st \<and> head_target st = Some h \<and> commits st h = Some hc
      \<and> parents hc \<noteq> [] \<and> (\<forall>p \<in> set (parents hc). commits st p \<noteq> None)
      \<and> be_write_tree be (be_add_all be (workdir st) (index st)) = Some t"
  then have del: "delete_last_commit be False st = (Inr (), set_head_target (hd (parents hc)) st)"
    by (simp add: delete_last_commit_soft)
  from a have res: "patch be msg st =
           (Inr (),
            set_head_target (be_hash be \<lparr>parents = parents hc, message = msg, tree = t\<rparr>)
              (st\<lparr>index := be_add_all be (workdir st) (index st),
                  commits := (commits st)
                    (be_hash be \<lparr>parents = parents hc, message = msg, tree = t\<rparr>
                       \<mapsto> \<lparr>parents = parents hc, message = msg, tree = t\<rparr>)\<rparr>))"
    by (simp add: patch_result)
  show "fst (delete_last_commit be False st) = Inr ()"
    "workdir (snd (delete_last_commit be False st)) = workdir st"
    "index (snd (delete_last_commit be False st)) = index st"
    by (simp_all add: del set_head_target_fields)
  show "fst (patch be msg st) = Inr ()"
    "commits (snd (patch be msg st))
            (be_hash be \<lparr>parents = parents hc, message = msg, tree = t\<rparr>)
          = Some \<lparr>parents = parents hc, message = msg, tree = t\<rparr>"
    "head_target (snd (patch be msg st))
          = Some (be_hash be \<lparr>parents = parents hc, message = msg, tree = t\<rparr>)"
    "workdir (snd (patch be msg st)) = workdir st"
    by (simp_all add: res set_head_target_fields)
qed

theorem patch_spec_witness:
  "merge_ongoing merging_repo
   \<and> patch demo_backend ''again'' merging_repo = (Inl CurrentlyMerging, merging_repo)
   \<and> \<not> merge_ongoing root_repo \<and> head_target root_repo = Some ''c0''
   \<and> patch demo_backend ''again'' root_repo
       = (Inl (UnsupportedOperation ''Can't delete initial commit.''), root_repo)
   \<and> \<not> merge_ongoing dirty_repo \<and> head_target dirty_repo = Some ''c1''
   \<and> fst (patch demo_backend ''again'' dirty_repo) = Inr ()
   \<and> commits (snd (patch demo_backend ''again'' dirty_repo)) ''id-again''
       = Some \<lparr>parents = [''c0''], message = ''again'', tree = [(''a.txt'', ''edited'')]\<rparr>
   \<and> head_target (snd (patch demo_backend ''again'' dirty_repo)) = Some ''id-again''
   \<and> workdir (snd (patch demo_backend ''again'' dirty_repo)) = workdir dirty_repo"
proof -
  have h1: "merge_ongoing merging_repo"
    by (simp add: op_defs store_defs demo_defs)
  have h2: "\<not> merge_ongoing root_repo" "head_target root_repo = Some ''c0''"
    "commits root_repo ''c0'' = Some \<lparr>parents = [], message = ''Create repository'', tree = []\<rparr>"
    "parents \<lparr>parents = [], message = ''Create repository'', tree = []\<rparr> = []"
    by (simp_all add: op_defs store_defs demo_defs)
  have h3: "\<not> merge_ongoing dirty_repo" "head_target dirty_repo = Some ''c1''"
    "commits dirty_repo ''c1''
       = Some \<lparr>parents = [''c0''], message = ''first'', tree = [(''a.txt'', ''one'')]\<rparr>"
    "parents \<lparr>parents = [''c0''], message = ''first'', tree = [(''a.txt'', ''one'')]\<rparr> \<noteq> []"
    "\<forall>p \<in> set (parents \<lparr>parents = [''c0''], message = ''first'',
                            tree = [(''a.txt'', ''one'')]\<rparr>). commits dirty_repo p \<noteq> None"
    "be_write_tree demo_backend (be_add_all demo_backend (workdir dirty_repo) (index dirty_repo))
       = Some [(''a.txt'', ''edited'')]"
    by (simp_all add: op_defs store_defs demo_defs)
  have ev: "be_hash demo_backend = (\<lambda>c. ''id-'' @ message c)"
    by (simp add: demo_defs)
  from patch_spec [of merging_repo demo_backend "''again''"]
       patch_spec [of root_repo demo_backend "''again''" "''c0''"
          "\<lparr>parents = [], message = ''Create repository'', tree = []\<rparr>"]
       patch_spec [of dirty_repo demo_backend "''again''" "''c1''"
          "\<lparr>parents = [''c0''], message = ''first'', tree = [(''a.txt'', ''one'')]\<rparr>"
          "[(''a.txt'', ''edited'')]"]
       h1 h2 h3
  show ?thesis by (simp add: ev)
qed

section \<open>The merge message of a restored WIP commit\<close>

text \<open>
  C2: on a repository whose WIP commit for \<open>main\<close> has two parents and the one-line
  message \<open>WIP\<close>, \<open>restore_wip\<close> restarts the merge and then sets the merge message to
  \<open>WIP\<close>, the whole commit message, instead of leaving the default \<open>Absorbed c2\<close>:
  \<open>find\<close> returns \<open>npos\<close>, the test \<open>newlineIndex >= 0\<close> holds for every \<open>size_t\<close>,
  and \<open>newlineIndex+1\<close> wraps around to \<open>0\<close>.
\<close>

theorem restore_wip_one_line_message:
  "revparse_single tampered_repo ''main#wip''
     = Inr (''w1'', \<lparr>parents = [''c1'', ''c2''], message = ''WIP'',
                     tree = [(''a.txt'', ''one''), (''b.txt'', ''two'')]\<rparr>)
   \<and> str_find ''WIP'' newline = npos
   \<and> fst (restore_wip demo_backend tampered_repo) = Inr ()
   \<and> merge_head (snd (restore_wip demo_backend tampered_repo)) = Some ''c2''
   \<and> merge_msg (snd (restore_wip demo_backend tampered_repo)) = Some ''WIP''
   \<and> merge_msg (snd (restore_wip demo_backend tampered_repo))
       \<noteq> Some (default_merge_message ''c2'')"
  by (simp add: op_defs store_defs demo_defs monad_defs str_find_def substr_def newline_def
      npos_def unat_minus_one_size_t)

end
